theory Spec2Isabelle
  imports Main
begin

section \<open>JavaScript values and Backbone models\<close>

text \<open>
  The brokers of \<^verbatim>\<open>models/auth_brokers/base.js\<close> and of the OAuth broker
  (\<^verbatim>\<open>src/unnamed/part_000\<close>) are JavaScript objects that are mutated in place and
  that hold references to other objects. The embedding therefore uses an explicit store:
  objects live at addresses, and every method takes the store and returns the new one.

  Behaviors are the instances of \<^verbatim>\<open>views/behaviors/null\<close> and
  \<^verbatim>\<open>views/behaviors/halt\<close> that the default tables create. A JavaScript value is a
  primitive, a behavior object, a reference to an object of the store, or one of the
  built-in objects and functions of the runtime, given by its name. Numbers are integers
  here: no claim depends on fractions or on NaN.
\<close>

datatype behavior = NullBehavior | HaltBehavior

datatype jsval =
    JUndefined
  | JNull
  | JBool bool
  | JNum int
  | JStr string
  | JBehavior behavior
  | JRef nat
  | JBuiltin string

text \<open>JavaScript's truthiness, as the operators \<^verbatim>\<open>!\<close> and \<^verbatim>\<open>!!\<close> read it.\<close>

fun truthy :: "jsval \<Rightarrow> bool" where
  "truthy JUndefined = False"
| "truthy JNull = False"
| "truthy (JBool b) = b"
| "truthy (JNum n) = (n \<noteq> 0)"
| "truthy (JStr s) = (s \<noteq> [])"
| "truthy (JBehavior b) = True"
| "truthy (JRef r) = True"
| "truthy (JBuiltin n) = True"

text \<open>
  An object is its table of own properties. A key that maps to \<open>Some JUndefined\<close> is a
  property that exists and holds \<^verbatim>\<open>undefined\<close>; a key that maps to \<open>None\<close> is no
  property at all.
\<close>

type_synonym obj = "string \<rightharpoonup> jsval"

text \<open>
  The properties that every plain object of a browser inherits from
  \<^verbatim>\<open>Object.prototype\<close>. Each is a function, but for \<^verbatim>\<open>__proto__\<close>, which reads as
  \<^verbatim>\<open>Object.prototype\<close> itself; all of them are truthy.
\<close>

definition Object_prototype :: "string list" where
  "Object_prototype =
     [''constructor'', ''hasOwnProperty'', ''isPrototypeOf'', ''propertyIsEnumerable'',
      ''toLocaleString'', ''toString'', ''valueOf'', ''__proto__'',
      ''__defineGetter__'', ''__defineSetter__'', ''__lookupGetter__'', ''__lookupSetter__'']"

text \<open>
  \<^verbatim>\<open>Backbone.Model\<close> is a third-party library. Its four attribute methods are modelled
  as Backbone implements them. \<^verbatim>\<open>get\<close> is \<^verbatim>\<open>this.attributes[attr]\<close>, a property
  read on a plain object: it yields the own property of that name if there is one, and
  otherwise what the object inherits under that name, so that a name of
  \<^verbatim>\<open>Object.prototype\<close> reads as the built-in of that name even when no attribute was
  ever set. \<^verbatim>\<open>has\<close> is \<^verbatim>\<open>this.get(attr) != null\<close>, \<^verbatim>\<open>set\<close> writes one
  attribute, \<^verbatim>\<open>unset\<close> deletes it. A write under the name \<^verbatim>\<open>__proto__\<close> does
  not create an attribute of that name in JavaScript (the name is the accessor of the
  prototype); such writes are not modelled, and the theorems about registries that
  depend on it assume that no call writes under that name.
\<close>

definition model_get :: "obj \<Rightarrow> string \<Rightarrow> jsval" where
  "model_get attributes attr =
     (case attributes attr of
        Some v \<Rightarrow> v
      | None \<Rightarrow> if attr \<in> set Object_prototype then JBuiltin attr else JUndefined)"

definition model_has :: "obj \<Rightarrow> string \<Rightarrow> bool" where
  "model_has attributes attr =
     (model_get attributes attr \<noteq> JUndefined \<and> model_get attributes attr \<noteq> JNull)"

definition model_set :: "obj \<Rightarrow> string \<Rightarrow> jsval \<Rightarrow> obj" where
  "model_set attributes attr v = attributes(attr \<mapsto> v)"

definition model_unset :: "obj \<Rightarrow> string \<Rightarrow> obj" where
  "model_unset attributes attr = attributes(attr := None)"

section \<open>Errors and promises\<close>

text \<open>
  \<open>AuthError\<close> and \<open>OAuthError\<close> are the results of \<^verbatim>\<open>AuthErrors.toError\<close> and
  \<^verbatim>\<open>OAuthErrors.toError\<close> with the given error name, \<open>Error\<close> is
  \<^verbatim>\<open>new Error(message)\<close>, \<open>TypeError\<close> is what the runtime throws when a method is
  called on a value that has none, \<open>ValidationError\<close> names the query parameter that
  failed its schema, and \<open>Rejected\<close> is a failure of a remote collaborator, passed on
  unchanged.

  A promise is modelled by its outcome once settled: \<open>Inl\<close> a rejection, \<open>Inr\<close> the
  value it resolves with. The callbacks of a chain run in order, each after the previous
  one has settled, so a chain is sequential composition and a throw inside a callback is
  a rejection.
\<close>

datatype error =
    AuthError string
  | OAuthError string
  | Error string
  | TypeError
  | ValidationError string
  | Rejected jsval

section \<open>The store\<close>

datatype broker_class = Base | OAuth

text \<open>
  What a promise of a remote collaborator resolves with: a primitive value, or an object
  that did not exist before (a parsed response), given by its properties.
\<close>

datatype response = Primitive jsval | NewObject obj

text \<open>
  The own properties of a broker instance. \<open>priv_behaviors\<close> and
  \<open>priv_capabilities\<close> are the addresses of the two \<^verbatim>\<open>Backbone.Model\<close> registries
  \<^verbatim>\<open>_behaviors\<close> and \<^verbatim>\<open>_capabilities\<close>, \<open>priv_isForceAuth\<close> is
  \<^verbatim>\<open>_isForceAuth\<close>, \<open>attributes\<close> are the broker's own model attributes (it is a
  \<^verbatim>\<open>Backbone.Model\<close> itself). The assertion library and the OAuth client are the
  collaborators of the OAuth broker, each given by the one method the broker calls; a
  base broker has neither.
\<close>

record broker =
  btype :: broker_class
  relier :: nat
  window :: nat
  priv_behaviors :: nat
  priv_capabilities :: nat
  priv_isForceAuth :: jsval
  attributes :: obj
  priv_assertionLibrary :: "(jsval \<Rightarrow> error + jsval) option"
  priv_oAuthClient :: "(obj \<Rightarrow> error + response) option"

record location =
  pathname :: string
  search :: "string \<rightharpoonup> string"

text \<open>A call of a remote collaborator, as the log of the store records it.\<close>

datatype call = Generate jsval | GetCode obj

text \<open>
  The store: the objects and \<^verbatim>\<open>Backbone.Model\<close> attribute hashes by address, the
  broker instances by address, the windows' locations, the next free addresses, the
  same-browser verification records by (namespace, uid), the log of collaborator calls,
  and the session (\<^verbatim>\<open>options.session\<close>, one per browser tab).
\<close>

record world =
  objs :: "nat \<Rightarrow> obj"
  brokers :: "nat \<Rightarrow> broker"
  windows :: "nat \<Rightarrow> location"
  nextObj :: nat
  nextBroker :: nat
  storage :: "(string \<times> jsval) \<rightharpoonup> obj"
  calls :: "call list"
  session :: "string \<rightharpoonup> obj"

text \<open>\<^verbatim>\<open>new Backbone.Model(attrs)\<close>: a new model whose attribute hash is a copy of \<open>attrs\<close>.\<close>

definition new_model :: "obj \<Rightarrow> world \<Rightarrow> nat \<times> world" where
  "new_model attrs w =
     (nextObj w, w\<lparr>objs := (objs w)(nextObj w := attrs), nextObj := Suc (nextObj w)\<rparr>)"

section \<open>The base broker\<close>

text \<open>
  The class-level tables \<^verbatim>\<open>defaultBehaviors\<close> and \<^verbatim>\<open>defaultCapabilities\<close>. The
  OAuth broker's tables are \<^verbatim>\<open>_.extend({}, proto.defaultBehaviors, {...})\<close>: the base
  table with three (respectively one) entries replaced. No code writes to these tables
  after the modules are loaded, so they are constants.
\<close>

definition base_defaultBehaviors :: obj where
  "base_defaultBehaviors =
     [''afterChangePassword'' \<mapsto> JBehavior NullBehavior,
      ''afterCompleteResetPassword'' \<mapsto> JBehavior NullBehavior,
      ''afterCompleteSignUp'' \<mapsto> JBehavior NullBehavior,
      ''afterDeleteAccount'' \<mapsto> JBehavior NullBehavior,
      ''afterForceAuth'' \<mapsto> JBehavior NullBehavior,
      ''afterResetPasswordConfirmationPoll'' \<mapsto> JBehavior NullBehavior,
      ''afterSignIn'' \<mapsto> JBehavior NullBehavior,
      ''afterSignInConfirmationPoll'' \<mapsto> JBehavior NullBehavior,
      ''afterSignUp'' \<mapsto> JBehavior NullBehavior,
      ''afterSignUpConfirmationPoll'' \<mapsto> JBehavior NullBehavior,
      ''beforeSignIn'' \<mapsto> JBehavior NullBehavior,
      ''beforeSignUpConfirmationPoll'' \<mapsto> JBehavior NullBehavior]"

definition base_defaultCapabilities :: obj where
  "base_defaultCapabilities =
     [''allowUidChange'' \<mapsto> JBool False,
      ''chooseWhatToSyncCheckbox'' \<mapsto> JBool True,
      ''convertExternalLinksToText'' \<mapsto> JBool False,
      ''emailVerificationMarketingSnippet'' \<mapsto> JBool True,
      ''handleSignedInNotification'' \<mapsto> JBool True,
      ''signup'' \<mapsto> JBool True,
      ''syncPreferencesNotification'' \<mapsto> JBool False]"

fun defaultBehaviors :: "broker_class \<Rightarrow> obj" where
  "defaultBehaviors Base = base_defaultBehaviors"
| "defaultBehaviors OAuth =
     base_defaultBehaviors ++
       [''afterForceAuth'' \<mapsto> JBehavior HaltBehavior,
        ''afterSignIn'' \<mapsto> JBehavior HaltBehavior,
        ''afterSignInConfirmationPoll'' \<mapsto> JBehavior HaltBehavior]"

fun defaultCapabilities :: "broker_class \<Rightarrow> obj" where
  "defaultCapabilities Base = base_defaultCapabilities"
| "defaultCapabilities OAuth =
     base_defaultCapabilities ++ [''handleSignedInNotification'' \<mapsto> JBool False]"

text \<open>
  The options of the constructor. \<^verbatim>\<open>options.window || window\<close>: the global window
  (window 0) when none is given.
\<close>

record options =
  opt_relier :: nat
  opt_window :: "nat option"
  opt_assertionLibrary :: "(jsval \<Rightarrow> error + jsval) option"
  opt_oAuthClient :: "(obj \<Rightarrow> error + response) option"

definition global_window :: nat where
  "global_window = 0"

text \<open>
  \<^verbatim>\<open>initialize\<close>. The OAuth broker's \<^verbatim>\<open>initialize\<close> keeps the collaborators and then
  calls the base one, which creates the two registries as new models seeded with the
  class's default tables. The result is the address of the new broker.
\<close>

definition initialize :: "broker_class \<Rightarrow> options \<Rightarrow> world \<Rightarrow> nat \<times> world" where
  "initialize cls opts w =
     (let (behaviorsRef, w1) = new_model (defaultBehaviors cls) w;
          (capabilitiesRef, w2) = new_model (defaultCapabilities cls) w1;
          this = nextBroker w2;
          self = \<lparr> btype = cls,
                   relier = opt_relier opts,
                   window = (case opt_window opts of None \<Rightarrow> global_window | Some win \<Rightarrow> win),
                   priv_behaviors = behaviorsRef,
                   priv_capabilities = capabilitiesRef,
                   priv_isForceAuth = JUndefined,
                   attributes = Map.empty,
                   priv_assertionLibrary =
                     (if cls = OAuth then opt_assertionLibrary opts else None),
                   priv_oAuthClient = (if cls = OAuth then opt_oAuthClient opts else None) \<rparr>
      in (this, w2\<lparr>brokers := (brokers w2)(this := self), nextBroker := Suc this\<rparr>))"

definition setBehavior :: "nat \<Rightarrow> string \<Rightarrow> jsval \<Rightarrow> world \<Rightarrow> world" where
  "setBehavior this behaviorName v w =
     (let r = priv_behaviors (brokers w this)
      in w\<lparr>objs := (objs w)(r := model_set (objs w r) behaviorName v)\<rparr>)"

definition getBehavior :: "nat \<Rightarrow> string \<Rightarrow> world \<Rightarrow> error + jsval" where
  "getBehavior this behaviorName w =
     (let behaviors = objs w (priv_behaviors (brokers w this))
      in if \<not> model_has behaviors behaviorName
         then Inl (Error (''behavior not found for: '' @ behaviorName))
         else Inr (model_get behaviors behaviorName))"

definition hasCapability :: "nat \<Rightarrow> string \<Rightarrow> world \<Rightarrow> bool" where
  "hasCapability this capabilityName w =
     (let capabilities = objs w (priv_capabilities (brokers w this))
      in model_has capabilities capabilityName \<and> truthy (model_get capabilities capabilityName))"

definition setCapability :: "nat \<Rightarrow> string \<Rightarrow> jsval \<Rightarrow> world \<Rightarrow> world" where
  "setCapability this capabilityName capabilityValue w =
     (let r = priv_capabilities (brokers w this)
      in w\<lparr>objs := (objs w)(r := model_set (objs w r) capabilityName capabilityValue)\<rparr>)"

definition unsetCapability :: "nat \<Rightarrow> string \<Rightarrow> world \<Rightarrow> world" where
  "unsetCapability this capabilityName w =
     (let r = priv_capabilities (brokers w this)
      in w\<lparr>objs := (objs w)(r := model_unset (objs w r) capabilityName)\<rparr>)"

definition getCapability :: "nat \<Rightarrow> string \<Rightarrow> world \<Rightarrow> jsval" where
  "getCapability this capabilityName w =
     model_get (objs w (priv_capabilities (brokers w this))) capabilityName"

text \<open>
  \<^verbatim>\<open>_isForceAuthUrl\<close>, \<^verbatim>\<open>fetch\<close> and \<^verbatim>\<open>isForceAuth\<close>. \<^verbatim>\<open>fetch\<close> first caches
  the result of the path test in \<^verbatim>\<open>_isForceAuth\<close> and then imports the query
  parameters, which can throw.
\<close>

definition isForceAuthUrl :: "nat \<Rightarrow> world \<Rightarrow> bool" where
  "isForceAuthUrl this w =
     (let path = pathname (windows w (window (brokers w this)))
      in path = ''/force_auth'' \<or> path = ''/oauth/force_auth'')"

text \<open>
  Modelled from the spec: \<^verbatim>\<open>importSearchParamsUsingSchema\<close> of
  \<^verbatim>\<open>models/mixins/search-param\<close> and \<^verbatim>\<open>Vat.boolean()\<close> of \<^verbatim>\<open>lib/vat\<close>, which are
  not among the sources. With the schema \<^verbatim>\<open>{ automatedBrowser: Vat.boolean() }\<close> the
  recognized query parameter is imported as an attribute of the broker, other parameters
  are ignored, and a malformed value fails with a validation error naming the parameter.
\<close>

definition importSearchParamsUsingSchema :: "nat \<Rightarrow> world \<Rightarrow> (error + unit) \<times> world" where
  "importSearchParamsUsingSchema this w =
     (let self = brokers w this;
          imported = (\<lambda>b. w\<lparr>brokers := (brokers w)
                        (this := self\<lparr>attributes :=
                           model_set (attributes self) ''automatedBrowser'' (JBool b)\<rparr>)\<rparr>)
      in case search (windows w (window self)) ''automatedBrowser'' of
           None \<Rightarrow> (Inr (), w)
         | Some s \<Rightarrow>
             if s = ''true'' then (Inr (), imported True)
             else if s = ''false'' then (Inr (), imported False)
             else (Inl (ValidationError ''automatedBrowser''), w))"

definition fetch :: "nat \<Rightarrow> world \<Rightarrow> (error + unit) \<times> world" where
  "fetch this w =
     (let w1 = w\<lparr>brokers := (brokers w)
                  (this := (brokers w this)\<lparr>priv_isForceAuth := JBool (isForceAuthUrl this w)\<rparr>)\<rparr>
      in importSearchParamsUsingSchema this w1)"

definition isForceAuth :: "nat \<Rightarrow> world \<Rightarrow> bool" where
  "isForceAuth this w = truthy (priv_isForceAuth (brokers w this))"

definition isAutomatedBrowser :: "nat \<Rightarrow> world \<Rightarrow> bool" where
  "isAutomatedBrowser this w = truthy (model_get (attributes (brokers w this)) ''automatedBrowser'')"

subsection \<open>Verification data\<close>

text \<open>
  Modelled from the spec: \<^verbatim>\<open>SameBrowserVerificationModel\<close> of
  \<^verbatim>\<open>models/verification/same-browser\<close>, which is not among the sources. It is the
  correlation store of the spec: \<^verbatim>\<open>persist\<close> writes the record for the key
  (namespace, uid), whose value is the email together with the attributes set on the
  model; \<^verbatim>\<open>clear\<close> deletes the record of that key, and deleting an absent record is
  not an error; a read of a key without a record yields nothing.
\<close>

record verification_model =
  vm_email :: jsval
  vm_namespace :: string
  vm_uid :: jsval
  vm_attributes :: obj

definition vm_persist :: "verification_model \<Rightarrow> world \<Rightarrow> world" where
  "vm_persist m w =
     w\<lparr>storage := (storage w)((vm_namespace m, vm_uid m) \<mapsto> (vm_attributes m)(''email'' \<mapsto> vm_email m))\<rparr>"

definition vm_clear :: "verification_model \<Rightarrow> world \<Rightarrow> world" where
  "vm_clear m w = w\<lparr>storage := (storage w)((vm_namespace m, vm_uid m) := None)\<rparr>"

definition vm_read :: "string \<Rightarrow> jsval \<Rightarrow> world \<Rightarrow> obj option" where
  "vm_read namespace uid w = storage w (namespace, uid)"

text \<open>
  An account argument is \<open>None\<close> for \<^verbatim>\<open>null\<close> or \<^verbatim>\<open>undefined\<close> and \<open>Some a\<close> for
  the account model at address \<open>a\<close>. \<^verbatim>\<open>account.get\<close> on no account throws.
\<close>

definition createSameBrowserVerificationModel ::
    "nat option \<Rightarrow> string \<Rightarrow> world \<Rightarrow> error + verification_model" where
  "createSameBrowserVerificationModel account namespace w =
     (case account of
        None \<Rightarrow> Inl TypeError
      | Some a \<Rightarrow>
          Inr \<lparr> vm_email = model_get (objs w a) ''email'',
                vm_namespace = namespace,
                vm_uid = model_get (objs w a) ''uid'',
                vm_attributes = Map.empty \<rparr>)"

definition clearSameBrowserVerificationModel ::
    "nat option \<Rightarrow> string \<Rightarrow> world \<Rightarrow> (error + unit) \<times> world" where
  "clearSameBrowserVerificationModel account namespace w =
     (case createSameBrowserVerificationModel account namespace w of
        Inl e \<Rightarrow> (Inl e, w)
      | Inr verificationInfo \<Rightarrow> (Inr (), vm_clear verificationInfo w))"

definition base_persistVerificationData ::
    "nat \<Rightarrow> nat option \<Rightarrow> world \<Rightarrow> (error + unit) \<times> world" where
  "base_persistVerificationData this account w =
     (case createSameBrowserVerificationModel account ''context'' w of
        Inl e \<Rightarrow> (Inl e, w)
      | Inr verificationInfo \<Rightarrow>
          (let verificationInfo1 = verificationInfo\<lparr>vm_attributes :=
                 model_set (vm_attributes verificationInfo) ''context''
                   (model_get (objs w (relier (brokers w this))) ''context'')\<rparr>
           in (Inr (), vm_persist verificationInfo1 w)))"

definition unpersistVerificationData ::
    "nat \<Rightarrow> nat option \<Rightarrow> world \<Rightarrow> (error + unit) \<times> world" where
  "unpersistVerificationData this account w =
     clearSameBrowserVerificationModel account ''context'' w"

section \<open>The OAuth broker\<close>

text \<open>
  Modelled from the spec: the constants of \<^verbatim>\<open>lib/constants\<close>, which is not among the
  sources: the access type "offline" and the actions 'signin' and 'signup'.
\<close>

definition ACCESS_TYPE_OFFLINE :: string where
  "ACCESS_TYPE_OFFLINE = ''offline''"

definition OAUTH_ACTION_SIGNIN :: string where
  "OAUTH_ACTION_SIGNIN = ''signin''"

definition OAUTH_ACTION_SIGNUP :: string where
  "OAUTH_ACTION_SIGNUP = ''signup''"

text \<open>
  \<^verbatim>\<open>Url.searchParam\<close> (\<^verbatim>\<open>lib/url\<close>) and \<^verbatim>\<open>Validate.isOAuthCodeValid\<close>
  (\<^verbatim>\<open>lib/validate\<close>) are not among the sources; the broker's functions take them as
  parameters. The second argument of \<open>searchParam\<close> is the query string, which is
  \<^verbatim>\<open>undefined\<close> when the redirect has no question mark.
\<close>

record lib =
  searchParam :: "string \<Rightarrow> jsval \<Rightarrow> jsval"
  isOAuthCodeValid :: "jsval \<Rightarrow> bool"

text \<open>\<^verbatim>\<open>s.split(c)\<close> for a one-character separator, and \<^verbatim>\<open>parts[1]\<close>.\<close>

fun split_on :: "char \<Rightarrow> string \<Rightarrow> string list" where
  "split_on c [] = [[]]"
| "split_on c (x # xs) =
     (if x = c then [] # split_on c xs
      else (case split_on c xs of
              [] \<Rightarrow> [[x]]
            | y # ys \<Rightarrow> (x # y) # ys))"

definition second :: "string list \<Rightarrow> jsval" where
  "second parts = (case parts of _ # q # _ \<Rightarrow> JStr q | _ \<Rightarrow> JUndefined)"

text \<open>Reading and writing a property of a value that is truthy.\<close>

definition prop_get :: "world \<Rightarrow> jsval \<Rightarrow> string \<Rightarrow> jsval" where
  "prop_get w v k = (case v of JRef r \<Rightarrow> model_get (objs w r) k | _ \<Rightarrow> JUndefined)"

definition prop_set :: "nat \<Rightarrow> string \<Rightarrow> jsval \<Rightarrow> world \<Rightarrow> world" where
  "prop_set r k v w = w\<lparr>objs := (objs w)(r := (objs w r)(k \<mapsto> v))\<rparr>"

text \<open>
  \<^verbatim>\<open>_formatOAuthResult\<close>. The two assignments write to the object it was given. A
  truthy redirect that is not a string has no \<^verbatim>\<open>split\<close> method.
\<close>

definition formatOAuthResult :: "lib \<Rightarrow> jsval \<Rightarrow> world \<Rightarrow> (error + jsval) \<times> world" where
  "formatOAuthResult l result w =
     (if \<not> truthy result then (Inl (OAuthError ''INVALID_RESULT''), w)
      else if \<not> truthy (prop_get w result ''redirect'')
      then (Inl (OAuthError ''INVALID_RESULT_REDIRECT''), w)
      else (case (result, prop_get w result ''redirect'') of
              (JRef r, JStr redirect) \<Rightarrow>
                (let redirectParams = second (split_on CHR ''?'' redirect);
                     w1 = prop_set r ''state'' (searchParam l ''state'' redirectParams) w;
                     w2 = prop_set r ''code'' (searchParam l ''code'' redirectParams) w1
                 in if \<not> isOAuthCodeValid l (prop_get w2 result ''code'')
                    then (Inl (OAuthError ''INVALID_RESULT_CODE''), w2)
                    else (Inr result, w2))
            | _ \<Rightarrow> (Inl TypeError, w)))"

text \<open>The value a collaborator's promise resolves with, placed in the store.\<close>

definition materialize :: "response \<Rightarrow> world \<Rightarrow> jsval \<times> world" where
  "materialize resp w =
     (case resp of
        Primitive v \<Rightarrow> (v, w)
      | NewObject props \<Rightarrow> (let (r, w1) = new_model props w in (JRef r, w1)))"

text \<open>
  \<^verbatim>\<open>getOAuthResult\<close>. Each call of a collaborator is appended to the log before its
  outcome is looked at. \<open>oauthParams\<close> is the parameter object that the callback of
  \<^verbatim>\<open>generate\<close> builds from the assertion and the relier, \<open>getCode_then_format\<close> is
  the call \<^verbatim>\<open>self._oAuthClient.getCode(oauthParams)\<close> followed by
  \<^verbatim>\<open>.then(_formatOAuthResult)\<close>.
\<close>

definition oauthParams :: "obj \<Rightarrow> jsval \<Rightarrow> obj" where
  "oauthParams relierAttrs assertion =
     (let params = [''assertion'' \<mapsto> assertion,
                    ''client_id'' \<mapsto> model_get relierAttrs ''clientId'',
                    ''scope'' \<mapsto> model_get relierAttrs ''scope'',
                    ''state'' \<mapsto> model_get relierAttrs ''state'']
      in if model_get relierAttrs ''accessType'' = JStr ACCESS_TYPE_OFFLINE
         then params(''access_type'' \<mapsto> JStr ACCESS_TYPE_OFFLINE)
         else params)"

definition getCode_then_format ::
    "lib \<Rightarrow> nat \<Rightarrow> obj \<Rightarrow> world \<Rightarrow> (error + jsval) \<times> world" where
  "getCode_then_format l this params w =
     (case priv_oAuthClient (brokers w this) of
        None \<Rightarrow> (Inl TypeError, w)
      | Some getCode \<Rightarrow>
          (let w1 = w\<lparr>calls := calls w @ [GetCode params]\<rparr>
           in case getCode params of
                Inl e \<Rightarrow> (Inl e, w1)
              | Inr resp \<Rightarrow>
                  (let (result, w2) = materialize resp w1
                   in formatOAuthResult l result w2)))"

definition getOAuthResult ::
    "lib \<Rightarrow> nat \<Rightarrow> nat option \<Rightarrow> world \<Rightarrow> (error + jsval) \<times> world" where
  "getOAuthResult l this account w =
     (case account of
        None \<Rightarrow> (Inl (AuthError ''INVALID_TOKEN''), w)
      | Some a \<Rightarrow>
          if \<not> truthy (model_get (objs w a) ''sessionToken'')
          then (Inl (AuthError ''INVALID_TOKEN''), w)
          else (case priv_assertionLibrary (brokers w this) of
                  None \<Rightarrow> (Inl TypeError, w)
                | Some generate \<Rightarrow>
                    (let sessionToken = model_get (objs w a) ''sessionToken'';
                         w1 = w\<lparr>calls := calls w @ [Generate sessionToken]\<rparr>
                     in case generate sessionToken of
                          Inl e \<Rightarrow> (Inl e, w1)
                        | Inr assertion \<Rightarrow>
                            getCode_then_format l this
                              (oauthParams (objs w1 (relier (brokers w1 this))) assertion) w1)))"

definition sendOAuthResultToRelier :: "nat \<Rightarrow> jsval \<Rightarrow> world \<Rightarrow> (error + jsval) \<times> world" where
  "sendOAuthResultToRelier this result w =
     (Inl (Error ''subclasses must override sendOAuthResultToRelier''), w)"

text \<open>
  Modelled from the spec: \<^verbatim>\<open>clear\<close> and \<^verbatim>\<open>set\<close> of the session object
  (\<^verbatim>\<open>lib/session\<close>, not among the sources): \<^verbatim>\<open>clear(key)\<close> removes the value kept
  under the key, \<^verbatim>\<open>set(key, value)\<close> stores one.
\<close>

definition session_clear :: "string \<Rightarrow> world \<Rightarrow> world" where
  "session_clear key w = w\<lparr>session := (session w)(key := None)\<rparr>"

definition session_set :: "string \<Rightarrow> obj \<Rightarrow> world \<Rightarrow> world" where
  "session_set key v w = w\<lparr>session := (session w)(key \<mapsto> v)\<rparr>"

text \<open>\<^verbatim>\<open>_.extend(result, additionalResultData)\<close> copies the properties onto the result.\<close>

definition extend :: "jsval \<Rightarrow> obj \<Rightarrow> world \<Rightarrow> world" where
  "extend target source w =
     (case target of
        JRef r \<Rightarrow> w\<lparr>objs := (objs w)(r := objs w r ++ source)\<rparr>
      | _ \<Rightarrow> w)"

definition finishOAuthFlow ::
    "lib \<Rightarrow> nat \<Rightarrow> nat option \<Rightarrow> obj \<Rightarrow> world \<Rightarrow> (error + jsval) \<times> world" where
  "finishOAuthFlow l this account additionalResultData w =
     (let w1 = session_clear ''oauth'' w
      in case getOAuthResult l this account w1 of
           (Inl e, w2) \<Rightarrow> (Inl e, w2)
         | (Inr result, w2) \<Rightarrow>
             sendOAuthResultToRelier this result (extend result additionalResultData w2))"

definition finishOAuthSignInFlow ::
    "lib \<Rightarrow> nat \<Rightarrow> nat option \<Rightarrow> world \<Rightarrow> (error + jsval) \<times> world" where
  "finishOAuthSignInFlow l this account w =
     finishOAuthFlow l this account [''action'' \<mapsto> JStr OAUTH_ACTION_SIGNIN] w"

definition finishOAuthSignUpFlow ::
    "lib \<Rightarrow> nat \<Rightarrow> nat option \<Rightarrow> world \<Rightarrow> (error + jsval) \<times> world" where
  "finishOAuthSignUpFlow l this account w =
     finishOAuthFlow l this account [''action'' \<mapsto> JStr OAUTH_ACTION_SIGNUP] w"

definition oauth_persistVerificationData ::
    "nat \<Rightarrow> nat option \<Rightarrow> world \<Rightarrow> (error + unit) \<times> world" where
  "oauth_persistVerificationData this account w =
     (let relierAttrs = objs w (relier (brokers w this));
          w1 = session_set ''oauth''
                 [''access_type'' \<mapsto> model_get relierAttrs ''access_type'',
                  ''action'' \<mapsto> model_get relierAttrs ''action'',
                  ''client_id'' \<mapsto> model_get relierAttrs ''clientId'',
                  ''keys'' \<mapsto> model_get relierAttrs ''keys'',
                  ''scope'' \<mapsto> model_get relierAttrs ''scope'',
                  ''state'' \<mapsto> model_get relierAttrs ''state''] w
      in base_persistVerificationData this account w1)"

text \<open>Method dispatch on the class of the instance.\<close>

definition persistVerificationData ::
    "nat \<Rightarrow> nat option \<Rightarrow> world \<Rightarrow> (error + unit) \<times> world" where
  "persistVerificationData this account w =
     (case btype (brokers w this) of
        Base \<Rightarrow> base_persistVerificationData this account w
      | OAuth \<Rightarrow> oauth_persistVerificationData this account w)"

subsection \<open>Lifecycle hooks\<close>

text \<open>
  The hooks of the base broker resolve to the behavior registered under their own name;
  \<^verbatim>\<open>afterCompleteSignUp\<close> and \<^verbatim>\<open>afterCompleteResetPassword\<close> first clear the
  verification data. The OAuth broker overrides five of them.
\<close>

datatype hook =
    BeforeSignIn
  | AfterSignIn
  | AfterSignInConfirmationPoll
  | AfterForceAuth
  | AfterSignUp
  | BeforeSignUpConfirmationPoll
  | AfterSignUpConfirmationPoll
  | AfterCompleteSignUp
  | AfterResetPasswordConfirmationPoll
  | AfterCompleteResetPassword
  | AfterChangePassword
  | AfterDeleteAccount

fun hook_name :: "hook \<Rightarrow> string" where
  "hook_name BeforeSignIn = ''beforeSignIn''"
| "hook_name AfterSignIn = ''afterSignIn''"
| "hook_name AfterSignInConfirmationPoll = ''afterSignInConfirmationPoll''"
| "hook_name AfterForceAuth = ''afterForceAuth''"
| "hook_name AfterSignUp = ''afterSignUp''"
| "hook_name BeforeSignUpConfirmationPoll = ''beforeSignUpConfirmationPoll''"
| "hook_name AfterSignUpConfirmationPoll = ''afterSignUpConfirmationPoll''"
| "hook_name AfterCompleteSignUp = ''afterCompleteSignUp''"
| "hook_name AfterResetPasswordConfirmationPoll = ''afterResetPasswordConfirmationPoll''"
| "hook_name AfterCompleteResetPassword = ''afterCompleteResetPassword''"
| "hook_name AfterChangePassword = ''afterChangePassword''"
| "hook_name AfterDeleteAccount = ''afterDeleteAccount''"

definition unpersist_then_behavior ::
    "hook \<Rightarrow> nat \<Rightarrow> nat option \<Rightarrow> world \<Rightarrow> (error + jsval) \<times> world" where
  "unpersist_then_behavior h this account w =
     (case unpersistVerificationData this account w of
        (Inl e, w1) \<Rightarrow> (Inl e, w1)
      | (Inr u, w1) \<Rightarrow> (getBehavior this (hook_name h) w1, w1))"

fun base_hook :: "hook \<Rightarrow> nat \<Rightarrow> nat option \<Rightarrow> world \<Rightarrow> (error + jsval) \<times> world" where
  "base_hook AfterCompleteSignUp this account w =
     unpersist_then_behavior AfterCompleteSignUp this account w"
| "base_hook AfterCompleteResetPassword this account w =
     unpersist_then_behavior AfterCompleteResetPassword this account w"
| "base_hook h this account w = (getBehavior this (hook_name h) w, w)"

definition finish_then_base ::
    "lib \<Rightarrow> hook \<Rightarrow> nat \<Rightarrow> nat option \<Rightarrow> world \<Rightarrow> (error + jsval) \<times> world" where
  "finish_then_base l h this account w =
     (case finishOAuthSignInFlow l this account w of
        (Inl e, w1) \<Rightarrow> (Inl e, w1)
      | (Inr r, w1) \<Rightarrow> base_hook h this account w1)"

fun oauth_hook :: "lib \<Rightarrow> hook \<Rightarrow> nat \<Rightarrow> nat option \<Rightarrow> world \<Rightarrow> (error + jsval) \<times> world" where
  "oauth_hook l AfterForceAuth this account w = finish_then_base l AfterForceAuth this account w"
| "oauth_hook l AfterSignIn this account w = finish_then_base l AfterSignIn this account w"
| "oauth_hook l AfterSignInConfirmationPoll this account w =
     finish_then_base l AfterSignInConfirmationPoll this account w"
| "oauth_hook l AfterSignUpConfirmationPoll this account w =
     finishOAuthSignUpFlow l this account w"
| "oauth_hook l AfterResetPasswordConfirmationPoll this account w =
     finishOAuthSignInFlow l this account w"
| "oauth_hook l h this account w = base_hook h this account w"

definition invoke_hook ::
    "lib \<Rightarrow> hook \<Rightarrow> nat \<Rightarrow> nat option \<Rightarrow> world \<Rightarrow> (error + jsval) \<times> world" where
  "invoke_hook l h this account w =
     (case btype (brokers w this) of
        Base \<Rightarrow> base_hook h this account w
      | OAuth \<Rightarrow> oauth_hook l h this account w)"

section \<open>Sequences of operations\<close>

text \<open>
  The calls that write to the registries of one broker, and a sequence of them applied
  in order to the broker at address \<open>this\<close>.
\<close>

datatype registry_op =
    SetBehavior string jsval
  | SetCapability string jsval
  | UnsetCapability string

fun apply_op :: "nat \<Rightarrow> world \<Rightarrow> registry_op \<Rightarrow> world" where
  "apply_op this w (SetBehavior n v) = setBehavior this n v w"
| "apply_op this w (SetCapability n v) = setCapability this n v w"
| "apply_op this w (UnsetCapability n) = unsetCapability this n w"

definition apply_ops :: "nat \<Rightarrow> registry_op list \<Rightarrow> world \<Rightarrow> world" where
  "apply_ops this ops w = foldl (apply_op this) w ops"

text \<open>
  The capability registry as the spec words it: the value a name currently has is the
  one of the latest call that set it, nothing if the latest call on the name unset it,
  and the seeded default if no call named it.
\<close>

fun on_capability :: "string \<Rightarrow> registry_op \<Rightarrow> bool" where
  "on_capability name (SetBehavior n v) = False"
| "on_capability name (SetCapability n v) = (n = name)"
| "on_capability name (UnsetCapability n) = (n = name)"

definition explicitly_set :: "obj \<Rightarrow> registry_op list \<Rightarrow> string \<Rightarrow> jsval option" where
  "explicitly_set seed ops name =
     (case find (on_capability name) (rev ops) of
        None \<Rightarrow> seed name
      | Some (SetCapability n v) \<Rightarrow> Some v
      | Some other \<Rightarrow> None)"

text \<open>The name a registry call writes under.\<close>

fun op_name :: "registry_op \<Rightarrow> string" where
  "op_name (SetBehavior n v) = n"
| "op_name (SetCapability n v) = n"
| "op_name (UnsetCapability n) = n"

fun sets_behavior :: "string \<Rightarrow> registry_op \<Rightarrow> bool" where
  "sets_behavior name (SetBehavior n v) = (n = name)"
| "sets_behavior name (SetCapability n v) = False"
| "sets_behavior name (UnsetCapability n) = False"

text \<open>
  Everything that can happen to the store after the modules are loaded: a method call on
  a broker, the construction of a broker, or the browser taking a window to another
  location. A method that the instance's class does not have throws at the call and
  changes nothing.
\<close>

datatype step =
    Registry nat registry_op
  | Fetch nat
  | PersistVerificationData nat "nat option"
  | UnpersistVerificationData nat "nat option"
  | FinishOAuthFlow nat "nat option" obj
  | InvokeHook hook nat "nat option"
  | Initialize broker_class options
  | Navigate nat location

fun exec :: "lib \<Rightarrow> world \<Rightarrow> step \<Rightarrow> world" where
  "exec l w (Registry this rop) = apply_op this w rop"
| "exec l w (Fetch this) = snd (fetch this w)"
| "exec l w (PersistVerificationData this account) = snd (persistVerificationData this account w)"
| "exec l w (UnpersistVerificationData this account) =
     snd (unpersistVerificationData this account w)"
| "exec l w (FinishOAuthFlow this account extra) =
     (if btype (brokers w this) = OAuth then snd (finishOAuthFlow l this account extra w) else w)"
| "exec l w (InvokeHook h this account) = snd (invoke_hook l h this account w)"
| "exec l w (Initialize cls opts) = snd (initialize cls opts w)"
| "exec l w (Navigate win loc) = w\<lparr>windows := (windows w)(win := loc)\<rparr>"

definition run :: "lib \<Rightarrow> step list \<Rightarrow> world \<Rightarrow> world" where
  "run l steps w = foldl (exec l) w steps"

section \<open>Concrete inputs\<close>

text \<open>
  Modelled from the spec: \<^verbatim>\<open>Url.searchParam\<close> of \<^verbatim>\<open>lib/url\<close>, which is not among
  the sources: the value of the named parameter in a query string of the form
  \<^verbatim>\<open>k1=v1&k2=v2\<close>, and \<^verbatim>\<open>undefined\<close> when the string or the parameter is absent.
  It is one instance of the parameter \<open>searchParam\<close>, used to evaluate the model at
  concrete inputs; escapes are not decoded.
\<close>

definition query_pair :: "string \<Rightarrow> string \<times> string" where
  "query_pair kv =
     (case split_on CHR ''='' kv of
        k # v # rest \<Rightarrow> (k, v)
      | [k] \<Rightarrow> (k, [])
      | [] \<Rightarrow> ([], []))"

definition Url_searchParam :: "string \<Rightarrow> jsval \<Rightarrow> jsval" where
  "Url_searchParam name str =
     (case str of
        JStr q \<Rightarrow>
          (case map_of (map query_pair (split_on CHR ''&'' q)) name of
             None \<Rightarrow> JUndefined
           | Some v \<Rightarrow> JStr v)
      | _ \<Rightarrow> JUndefined)"

text \<open>
  One instance of the parameter \<open>isOAuthCodeValid\<close>, used to evaluate the model at
  concrete inputs: a code is a non-empty string of lower-case hexadecimal digits.
\<close>

definition hex_code_valid :: "jsval \<Rightarrow> bool" where
  "hex_code_valid code =
     (case code of
        JStr s \<Rightarrow> s \<noteq> [] \<and> list_all (\<lambda>c. c \<in> set ''0123456789abcdef'') s
      | _ \<Rightarrow> False)"

definition sample_lib :: lib where
  "sample_lib = \<lparr> searchParam = Url_searchParam, isOAuthCodeValid = hex_code_valid \<rparr>"

text \<open>
  A store in which no broker has been created yet. The relier is the model at address 0
  and asks for offline access, the account is the model at address 1 and has a session
  token, the account at address 2 has none, and the object at address 3 is a result
  whose redirect carries a code that is not hexadecimal.
\<close>

definition sample_world :: world where
  "sample_world =
     \<lparr> objs = (\<lambda>r. Map.empty)
         (0 := [''clientId'' \<mapsto> JStr ''dcdb5ae7add825d2'',
                ''scope'' \<mapsto> JStr ''profile'',
                ''state'' \<mapsto> JStr ''S'',
                ''accessType'' \<mapsto> JStr ''offline'',
                ''keys'' \<mapsto> JBool True,
                ''context'' \<mapsto> JStr ''oauth''],
          1 := [''uid'' \<mapsto> JStr ''uid1'',
                ''email'' \<mapsto> JStr ''a@b.c'',
                ''sessionToken'' \<mapsto> JStr ''token''],
          2 := [''uid'' \<mapsto> JStr ''uid2'', ''email'' \<mapsto> JStr ''d@e.f''],
          3 := [''redirect'' \<mapsto> JStr ''https://rp/cb?state=S&code=C'']),
       brokers = (\<lambda>b. \<lparr> btype = Base, relier = 0, window = 0, priv_behaviors = 0,
                        priv_capabilities = 0, priv_isForceAuth = JUndefined,
                        attributes = Map.empty, priv_assertionLibrary = None,
                        priv_oAuthClient = None \<rparr>),
       windows = (\<lambda>n. \<lparr> pathname = ''/oauth/force_auth'', search = Map.empty \<rparr>),
       nextObj = 4,
       nextBroker = 0,
       storage = Map.empty,
       calls = [],
       session = [''oauth'' \<mapsto> [''client_id'' \<mapsto> JStr ''stale'']] \<rparr>"

text \<open>
  Options with collaborators that answer with fixed values: the assertion library
  resolves with an assertion, the OAuth client with a new result object whose redirect
  carries a hexadecimal code.
\<close>

definition sample_options :: options where
  "sample_options =
     \<lparr> opt_relier = 0,
       opt_window = None,
       opt_assertionLibrary = Some (\<lambda>sessionToken. Inr (JStr ''assertion'')),
       opt_oAuthClient =
         Some (\<lambda>params. Inr (NewObject [''redirect'' \<mapsto> JStr ''https://rp/cb?state=S&code=c0de''])) \<rparr>"

text \<open>
  The sample store after a base broker, respectively an OAuth broker, has been
  constructed in it (the broker is at address 0, its registries at 4 and 5), and after a
  base broker whose \<^verbatim>\<open>signup\<close> capability is then switched off and an OAuth broker
  have been constructed one after the other (at addresses 0 and 1).
\<close>

definition sample_base_world :: world where
  "sample_base_world = snd (initialize Base sample_options sample_world)"

definition sample_oauth_world :: world where
  "sample_oauth_world = snd (initialize OAuth sample_options sample_world)"

definition two_brokers_world :: world where
  "two_brokers_world =
     snd (initialize OAuth sample_options
            (apply_ops 0 [SetCapability ''signup'' (JBool False)] sample_base_world))"

section \<open>The registries\<close>

text \<open>The registry calls write to the store of objects only.\<close>

lemma apply_op_brokers: "brokers (apply_op b w rop) = brokers w"
  by (cases rop) (simp_all add: setBehavior_def setCapability_def unsetCapability_def Let_def)

lemma apply_op_nextBroker: "nextBroker (apply_op b w rop) = nextBroker w"
  by (cases rop) (simp_all add: setBehavior_def setCapability_def unsetCapability_def Let_def)

lemma apply_op_nextObj: "nextObj (apply_op b w rop) = nextObj w"
  by (cases rop) (simp_all add: setBehavior_def setCapability_def unsetCapability_def Let_def)

lemma apply_ops_Nil: "apply_ops b [] w = w"
  by (simp add: apply_ops_def)

lemma apply_ops_snoc: "apply_ops b (ops @ [rop]) w = apply_op b (apply_ops b ops w) rop"
  by (simp add: apply_ops_def)

lemma apply_ops_brokers: "brokers (apply_ops b ops w) = brokers w"
  by (induction ops rule: rev_induct) (simp_all add: apply_ops_Nil apply_ops_snoc apply_op_brokers)

lemma apply_ops_nextBroker: "nextBroker (apply_ops b ops w) = nextBroker w"
  by (induction ops rule: rev_induct)
     (simp_all add: apply_ops_Nil apply_ops_snoc apply_op_nextBroker)

lemma apply_ops_nextObj: "nextObj (apply_ops b ops w) = nextObj w"
  by (induction ops rule: rev_induct) (simp_all add: apply_ops_Nil apply_ops_snoc apply_op_nextObj)

text \<open>A registry call of a broker leaves every object but its two registries alone.\<close>

lemma apply_op_objs_other:
  "r \<noteq> priv_behaviors (brokers w b) \<Longrightarrow> r \<noteq> priv_capabilities (brokers w b) \<Longrightarrow>
   objs (apply_op b w rop) r = objs w r"
  by (cases rop) (simp_all add: setBehavior_def setCapability_def unsetCapability_def Let_def)

lemma apply_ops_objs_other:
  "r \<noteq> priv_behaviors (brokers w b) \<Longrightarrow> r \<noteq> priv_capabilities (brokers w b) \<Longrightarrow>
   objs (apply_ops b ops w) r = objs w r"
proof (induction ops rule: rev_induct)
  case Nil
  show ?case by (simp add: apply_ops_Nil)
next
  case (snoc rop ops)
  then show ?case
    using apply_op_objs_other[of r "apply_ops b ops w" b rop]
    by (simp add: apply_ops_snoc apply_ops_brokers)
qed

text \<open>What the constructor leaves behind.\<close>

lemma initialize_facts:
  assumes "initialize cls opts w0 = (b, w1)"
  shows "b = nextBroker w0"
    and "priv_behaviors (brokers w1 b) = nextObj w0"
    and "priv_capabilities (brokers w1 b) = Suc (nextObj w0)"
    and "objs w1 (nextObj w0) = defaultBehaviors cls"
    and "objs w1 (Suc (nextObj w0)) = defaultCapabilities cls"
    and "priv_isForceAuth (brokers w1 b) = JUndefined"
    and "nextObj w1 = Suc (Suc (nextObj w0))"
    and "nextBroker w1 = Suc (nextBroker w0)"
  using assms by (auto simp: initialize_def new_model_def Let_def)

lemma initialize_others:
  assumes "initialize cls opts w0 = (b, w1)"
  shows "b' \<noteq> b \<Longrightarrow> brokers w1 b' = brokers w0 b'"
    and "r < nextObj w0 \<Longrightarrow> objs w1 r = objs w0 r"
  using assms by (auto simp: initialize_def new_model_def Let_def)

text \<open>
  The capability registry in the store agrees with the registry as the spec words it,
  and the behavior registry keeps the entry of a name that no call has set.
\<close>

lemma capabilities_after:
  assumes "priv_behaviors (brokers w b) \<noteq> priv_capabilities (brokers w b)"
  shows "objs (apply_ops b ops w) (priv_capabilities (brokers w b)) name =
         explicitly_set (objs w (priv_capabilities (brokers w b))) ops name"
proof (induction ops rule: rev_induct)
  case Nil
  show ?case by (simp add: apply_ops_Nil explicitly_set_def)
next
  case (snoc rop ops)
  have br: "brokers (apply_ops b ops w) = brokers w" by (rule apply_ops_brokers)
  show ?case
  proof (cases rop)
    case (SetBehavior n v)
    then show ?thesis using snoc assms br
      by (simp add: apply_ops_snoc setBehavior_def Let_def explicitly_set_def)
  next
    case (SetCapability n v)
    then show ?thesis using snoc br
      by (simp add: apply_ops_snoc setCapability_def Let_def explicitly_set_def model_set_def)
  next
    case (UnsetCapability n)
    then show ?thesis using snoc br
      by (simp add: apply_ops_snoc unsetCapability_def Let_def explicitly_set_def model_unset_def)
  qed
qed

lemma behaviors_after:
  assumes "priv_behaviors (brokers w b) \<noteq> priv_capabilities (brokers w b)"
  shows "\<not> list_ex (sets_behavior name) ops \<Longrightarrow>
         objs (apply_ops b ops w) (priv_behaviors (brokers w b)) name =
         objs w (priv_behaviors (brokers w b)) name"
proof (induction ops rule: rev_induct)
  case Nil
  show ?case by (simp add: apply_ops_Nil)
next
  case (snoc rop ops)
  have br: "brokers (apply_ops b ops w) = brokers w" by (rule apply_ops_brokers)
  from snoc show ?case using assms br
    by (cases rop)
       (auto simp: apply_ops_snoc setBehavior_def setCapability_def unsetCapability_def Let_def
          model_set_def)
qed

lemma default_behavior_object:
  "defaultBehaviors cls name = Some v \<Longrightarrow> v \<noteq> JUndefined \<and> v \<noteq> JNull"
  by (cases cls) (auto simp: base_defaultBehaviors_def map_add_def split: if_splits option.splits)

text \<open>The sample stores, evaluated.\<close>

lemma sample_base_created:
  "initialize Base sample_options sample_world = (0, sample_base_world)"
  by (simp add: sample_base_world_def initialize_def new_model_def sample_world_def Let_def)

lemma sample_oauth_created:
  "initialize OAuth sample_options sample_world = (0, sample_oauth_world)"
  by (simp add: sample_oauth_world_def initialize_def new_model_def sample_world_def Let_def)

lemma two_brokers_created:
  "initialize OAuth sample_options
     (apply_ops 0 [SetCapability ''signup'' (JBool False)] sample_base_world) =
   (1, two_brokers_world)"
  by (simp add: two_brokers_world_def sample_base_world_def apply_ops_def setCapability_def
        initialize_def new_model_def sample_world_def Let_def)

lemma sample_oauth_objs:
  "objs sample_oauth_world 0 = objs sample_world 0"
  "objs sample_oauth_world 1 = objs sample_world 1"
  "objs sample_oauth_world 2 = objs sample_world 2"
  "session sample_oauth_world = session sample_world"
  "storage sample_oauth_world = Map.empty"
  "calls sample_oauth_world = []"
  "relier (brokers sample_oauth_world 0) = 0"
  "btype (brokers sample_oauth_world 0) = OAuth"
  "priv_assertionLibrary (brokers sample_oauth_world 0) =
     Some (\<lambda>sessionToken. Inr (JStr ''assertion''))"
  "priv_oAuthClient (brokers sample_oauth_world 0) =
     Some (\<lambda>params. Inr (NewObject [''redirect'' \<mapsto> JStr ''https://rp/cb?state=S&code=c0de'']))"
  by (simp_all add: sample_oauth_world_def initialize_def new_model_def sample_world_def Let_def
        sample_options_def)

lemma sample_objs:
  "model_get (objs sample_world 0) ''accessType'' = JStr ''offline''"
  "model_get (objs sample_world 0) ''access_type'' = JUndefined"
  "model_get (objs sample_world 0) ''clientId'' = JStr ''dcdb5ae7add825d2''"
  "model_get (objs sample_world 0) ''scope'' = JStr ''profile''"
  "model_get (objs sample_world 0) ''state'' = JStr ''S''"
  "model_get (objs sample_world 0) ''keys'' = JBool True"
  "model_get (objs sample_world 0) ''action'' = JUndefined"
  "model_get (objs sample_world 0) ''context'' = JStr ''oauth''"
  "model_get (objs sample_world 1) ''sessionToken'' = JStr ''token''"
  "model_get (objs sample_world 1) ''uid'' = JStr ''uid1''"
  "model_get (objs sample_world 1) ''email'' = JStr ''a@b.c''"
  "model_get (objs sample_world 2) ''sessionToken'' = JUndefined"
  by (simp_all add: sample_world_def model_get_def Object_prototype_def)

text \<open>
  What \<^verbatim>\<open>getBehavior\<close> does for the names it is meant for. A name that no object
  inherits, that is not in the default table of the broker's class and that no
  \<^verbatim>\<open>setBehavior\<close> call has set makes it fail with the error whose message is
  \<^verbatim>\<open>behavior not found for: \<close> followed by the name; and for every name of the
  default table, \<^verbatim>\<open>getBehavior\<close> right after construction succeeds with the declared
  default.
\<close>

lemma getBehavior_unregistered:
  assumes "initialize cls opts w0 = (b, w1)"
    and "name \<notin> set Object_prototype"
    and "''__proto__'' \<notin> op_name ` set ops"
    and "defaultBehaviors cls name = None"
    and "\<not> list_ex (sets_behavior name) ops"
  shows "getBehavior b name (apply_ops b ops w1) =
           Inl (Error (''behavior not found for: '' @ name))"
proof -
  note f = initialize_facts[OF assms(1)]
  have ne: "priv_behaviors (brokers w1 b) \<noteq> priv_capabilities (brokers w1 b)"
    using f(2,3) by simp
  have seeded: "objs w1 (priv_behaviors (brokers w1 b)) = defaultBehaviors cls"
    using f(2,4) by simp
  show ?thesis
    using behaviors_after[OF ne assms(5)] assms(2,4) seeded
    by (simp add: getBehavior_def Let_def model_has_def model_get_def apply_ops_brokers)
qed

lemma getBehavior_default:
  assumes "initialize cls opts w0 = (b, w1)"
    and "defaultBehaviors cls name = Some v"
  shows "getBehavior b name w1 = Inr v"
proof -
  note f = initialize_facts[OF assms(1)]
  have seeded: "objs w1 (priv_behaviors (brokers w1 b)) = defaultBehaviors cls"
    using f(2,4) by simp
  show ?thesis
    using default_behavior_object[OF assms(2)] assms(2) seeded
    by (simp add: getBehavior_def Let_def model_has_def model_get_def)
qed

text \<open>
  Claim C5 at a concrete input. On a base broker that was just constructed, the name
  \<^verbatim>\<open>constructor\<close> is not in the default table and was never set, and yet
  \<^verbatim>\<open>getBehavior\<close> does not fail for it: the registry's \<^verbatim>\<open>has\<close> finds the
  function that the attribute hash inherits under that name, and \<^verbatim>\<open>getBehavior\<close>
  returns it. A name that no object inherits, such as \<^verbatim>\<open>afterSignOut\<close>, fails as
  the claim says, and a name of the default table yields its default.
\<close>

theorem getBehavior_inherited_name:
  "defaultBehaviors Base ''constructor'' = None
   \<and> getBehavior 0 ''constructor'' sample_base_world = Inr (JBuiltin ''constructor'')
   \<and> defaultBehaviors Base ''afterSignOut'' = None
   \<and> getBehavior 0 ''afterSignOut'' sample_base_world =
       Inl (Error ''behavior not found for: afterSignOut'')
   \<and> getBehavior 0 ''afterSignIn'' sample_base_world = Inr (JBehavior NullBehavior)"
  by (simp add: sample_base_world_def initialize_def new_model_def sample_world_def Let_def
        getBehavior_def model_has_def model_get_def base_defaultBehaviors_def
        Object_prototype_def)

text \<open>
  Claim C4, as the code has it by design. Let the name be none of those that every
  object inherits from \<^verbatim>\<open>Object.prototype\<close>, and let no call write under the name
  \<^verbatim>\<open>__proto__\<close>. Then \<^verbatim>\<open>hasCapability\<close> answers true exactly when the name
  currently has a value (seeded from the class's defaults or set by
  \<^verbatim>\<open>setCapability\<close>, and not unset since) and that value is truthy. A capability
  seeded or set to false answers false, as a name that was never set does, without
  throwing, so \<^verbatim>\<open>hasCapability\<close> does not tell the two apart; \<^verbatim>\<open>getCapability\<close>
  does, with \<^verbatim>\<open>undefined\<close> for the one and the value for the other. The same holds
  step by step in any store: after \<^verbatim>\<open>setCapability\<close> of the name the answer is the
  truthiness of the value set, after \<^verbatim>\<open>unsetCapability\<close> of the name it is false,
  and setting or unsetting another capability does not change it.
\<close>

theorem hasCapability_current_truthy:
  assumes "initialize cls opts w0 = (b, w1)"
    and "name \<notin> set Object_prototype"
    and "''__proto__'' \<notin> op_name ` set ops"
  shows "hasCapability b name (apply_ops b ops w1) =
           (case explicitly_set (defaultCapabilities cls) ops name of
              None \<Rightarrow> False
            | Some v \<Rightarrow> truthy v)
         \<and> getCapability b name (apply_ops b ops w1) =
           (case explicitly_set (defaultCapabilities cls) ops name of
              None \<Rightarrow> JUndefined
            | Some v \<Rightarrow> v)
         \<and> (\<forall>this w v.
               hasCapability this name (setCapability this name v w) = truthy v
               \<and> getCapability this name (setCapability this name v w) = v)
         \<and> (\<forall>this w.
               \<not> hasCapability this name (unsetCapability this name w)
               \<and> getCapability this name (unsetCapability this name w) = JUndefined)
         \<and> (\<forall>this w n v. n \<noteq> name \<and> n \<noteq> ''__proto__'' \<longrightarrow>
               hasCapability this name (setCapability this n v w) = hasCapability this name w
               \<and> getCapability this name (setCapability this n v w) = getCapability this name w
               \<and> hasCapability this name (unsetCapability this n w) = hasCapability this name w
               \<and> getCapability this name (unsetCapability this n w) = getCapability this name w)"
proof -
  note f = initialize_facts[OF assms(1)]
  have ne: "priv_behaviors (brokers w1 b) \<noteq> priv_capabilities (brokers w1 b)"
    using f(2,3) by simp
  have c: "objs (apply_ops b ops w1) (priv_capabilities (brokers w1 b)) name =
           explicitly_set (defaultCapabilities cls) ops name"
    using capabilities_after[OF ne, of ops name] f(3,5) by simp
  have history: "hasCapability b name (apply_ops b ops w1) =
           (case explicitly_set (defaultCapabilities cls) ops name of
              None \<Rightarrow> False
            | Some v \<Rightarrow> truthy v)
         \<and> getCapability b name (apply_ops b ops w1) =
           (case explicitly_set (defaultCapabilities cls) ops name of
              None \<Rightarrow> JUndefined
            | Some v \<Rightarrow> v)"
    using c assms(2)
    by (auto simp: hasCapability_def getCapability_def Let_def model_has_def model_get_def
          apply_ops_brokers split: option.splits)
  have set_it: "hasCapability this name (setCapability this name v w) = truthy v
               \<and> getCapability this name (setCapability this name v w) = v" for this w v
    by (cases v)
       (simp_all add: hasCapability_def getCapability_def setCapability_def Let_def
          model_has_def model_get_def model_set_def)
  have unset_it: "\<not> hasCapability this name (unsetCapability this name w)
               \<and> getCapability this name (unsetCapability this name w) = JUndefined" for this w
    using assms(2)
    by (simp add: hasCapability_def getCapability_def unsetCapability_def Let_def
          model_has_def model_get_def model_unset_def)
  have other: "hasCapability this name (setCapability this n v w) = hasCapability this name w
               \<and> getCapability this name (setCapability this n v w) = getCapability this name w
               \<and> hasCapability this name (unsetCapability this n w) = hasCapability this name w
               \<and> getCapability this name (unsetCapability this n w) = getCapability this name w"
    if "n \<noteq> name" for this w n v
    using that
    by (simp add: hasCapability_def getCapability_def setCapability_def unsetCapability_def
          Let_def model_has_def model_get_def model_set_def model_unset_def)
  show ?thesis using history set_it unset_it other by blast
qed

theorem hasCapability_current_truthy_witness:
  "hasCapability 0 ''signup'' (apply_ops 0 [] sample_base_world)
   \<and> \<not> hasCapability 0 ''signup''
          (apply_ops 0 [SetCapability ''signup'' (JBool False)] sample_base_world)
   \<and> getCapability 0 ''signup''
          (apply_ops 0 [SetCapability ''signup'' (JBool False)] sample_base_world) = JBool False
   \<and> \<not> hasCapability 0 ''signup''
          (apply_ops 0 [SetCapability ''signup'' (JBool True), UnsetCapability ''signup'']
             sample_base_world)
   \<and> getCapability 0 ''signup''
          (apply_ops 0 [SetCapability ''signup'' (JBool True), UnsetCapability ''signup'']
             sample_base_world) = JUndefined
   \<and> hasCapability 0 ''signup''
          (setCapability 0 ''allowUidChange'' (JBool True) sample_base_world) =
       hasCapability 0 ''signup'' sample_base_world"
proof -
  have name: "''signup'' \<notin> set Object_prototype"
    by (simp add: Object_prototype_def)
  have other: "''allowUidChange'' \<noteq> ''signup'' \<and> ''allowUidChange'' \<noteq> ''__proto__''"
    by simp
  show ?thesis
    using hasCapability_current_truthy[OF sample_base_created name, of "[]"]
      hasCapability_current_truthy[OF sample_base_created name,
        of "[SetCapability ''signup'' (JBool False)]"]
      hasCapability_current_truthy[OF sample_base_created name,
        of "[SetCapability ''signup'' (JBool True), UnsetCapability ''signup'']"]
      other
    by (simp add: explicitly_set_def base_defaultCapabilities_def)
qed

text \<open>
  The claim as the spec states it fails on the default table itself:
  \<^verbatim>\<open>allowUidChange\<close> is seeded, with the value false, and \<^verbatim>\<open>hasCapability\<close>
  answers false for it, as it does for a name that was never set.
\<close>

theorem hasCapability_seeded_false_counterexample:
  "fst (initialize Base sample_options sample_world) = 0
   \<and> defaultCapabilities Base ''allowUidChange'' = Some (JBool False)
   \<and> \<not> hasCapability 0 ''allowUidChange'' (snd (initialize Base sample_options sample_world))
   \<and> defaultCapabilities Base ''neverSet'' = None
   \<and> \<not> hasCapability 0 ''neverSet'' (snd (initialize Base sample_options sample_world))"
  by (simp add: initialize_def new_model_def sample_world_def Let_def hasCapability_def
        model_has_def model_get_def base_defaultCapabilities_def Object_prototype_def)

section \<open>The exchange of an assertion for a code\<close>

text \<open>
  What the functions of the exchange leave alone: the broker instances, and the session.
\<close>

lemma formatOAuthResult_frame:
  "brokers (snd (formatOAuthResult l result w)) = brokers w"
  "nextBroker (snd (formatOAuthResult l result w)) = nextBroker w"
  "session (snd (formatOAuthResult l result w)) = session w"
  "calls (snd (formatOAuthResult l result w)) = calls w"
  by (auto simp: formatOAuthResult_def prop_set_def Let_def split: jsval.splits)

lemma materialize_frame:
  "brokers (snd (materialize resp w)) = brokers w"
  "nextBroker (snd (materialize resp w)) = nextBroker w"
  "session (snd (materialize resp w)) = session w"
  "calls (snd (materialize resp w)) = calls w"
  by (auto simp: materialize_def new_model_def Let_def split: response.splits)

lemma getCode_then_format_frame:
  "brokers (snd (getCode_then_format l this params w)) = brokers w"
  "nextBroker (snd (getCode_then_format l this params w)) = nextBroker w"
  "session (snd (getCode_then_format l this params w)) = session w"
  by (simp_all add: getCode_then_format_def Let_def split_beta formatOAuthResult_frame
        materialize_frame split: option.splits sum.splits)

lemma getOAuthResult_frame:
  "brokers (snd (getOAuthResult l this account w)) = brokers w"
  "nextBroker (snd (getOAuthResult l this account w)) = nextBroker w"
  "session (snd (getOAuthResult l this account w)) = session w"
  by (simp_all add: getOAuthResult_def Let_def getCode_then_format_frame
        split: option.splits sum.splits)

text \<open>The exchange neither reads nor writes the session.\<close>

lemma calls_session_swap:
  "(w\<lparr>session := s\<rparr>)\<lparr>calls := c\<rparr> = (w\<lparr>calls := c\<rparr>)\<lparr>session := s\<rparr>"
  by simp

lemma formatOAuthResult_session:
  "formatOAuthResult l result (w\<lparr>session := s\<rparr>) =
     (fst (formatOAuthResult l result w), (snd (formatOAuthResult l result w))\<lparr>session := s\<rparr>)"
  by (auto simp: formatOAuthResult_def prop_set_def prop_get_def Let_def split: jsval.splits)

lemma materialize_session:
  "materialize resp (w\<lparr>session := s\<rparr>) =
     (fst (materialize resp w), (snd (materialize resp w))\<lparr>session := s\<rparr>)"
  by (auto simp: materialize_def new_model_def Let_def split: response.splits)

lemma getCode_then_format_session:
  "getCode_then_format l this params (w\<lparr>session := s\<rparr>) =
     (fst (getCode_then_format l this params w),
      (snd (getCode_then_format l this params w))\<lparr>session := s\<rparr>)"
  by (simp add: getCode_then_format_def Let_def split_beta materialize_session
        formatOAuthResult_session calls_session_swap split: option.splits sum.splits)

lemma getOAuthResult_session:
  "getOAuthResult l this account (w\<lparr>session := s\<rparr>) =
     (fst (getOAuthResult l this account w), (snd (getOAuthResult l this account w))\<lparr>session := s\<rparr>)"
  by (simp add: getOAuthResult_def Let_def getCode_then_format_session calls_session_swap
        split: option.splits sum.splits)

text \<open>The account of the sample store, under the other spelling of its address.\<close>

lemma sample_account_Suc:
  "objs sample_oauth_world (Suc 0) = objs sample_world (Suc 0)"
  "model_get (objs sample_world (Suc 0)) ''sessionToken'' = JStr ''token''"
  "model_get (objs sample_world (Suc 0)) ''uid'' = JStr ''uid1''"
  "model_get (objs sample_world (Suc 0)) ''email'' = JStr ''a@b.c''"
  using sample_oauth_objs(2) sample_objs(9,10,11) by simp_all

text \<open>
  Claim C1. For an account that is \<^verbatim>\<open>null\<close>, or whose \<^verbatim>\<open>sessionToken\<close> is
  \<^verbatim>\<open>undefined\<close> or \<^verbatim>\<open>null\<close>, \<^verbatim>\<open>getOAuthResult\<close> rejects with the
  \<^verbatim>\<open>INVALID_TOKEN\<close> error of \<^verbatim>\<open>AuthErrors\<close> and leaves the store as it was; in
  particular the log of collaborator calls gains neither a \<^verbatim>\<open>generate\<close> nor a
  \<^verbatim>\<open>getCode\<close>.
\<close>

theorem getOAuthResult_invalid_token:
  assumes "account = None \<or>
           (\<exists>a. account = Some a \<and>
                (model_get (objs w a) ''sessionToken'' = JUndefined \<or>
                 model_get (objs w a) ''sessionToken'' = JNull))"
  shows "getOAuthResult l this account w = (Inl (AuthError ''INVALID_TOKEN''), w)
         \<and> calls (snd (getOAuthResult l this account w)) = calls w"
  using assms by (auto simp: getOAuthResult_def)

theorem getOAuthResult_invalid_token_witness:
  "getOAuthResult sample_lib 0 None sample_oauth_world =
     (Inl (AuthError ''INVALID_TOKEN''), sample_oauth_world)
   \<and> model_get (objs sample_oauth_world 2) ''sessionToken'' = JUndefined
   \<and> getOAuthResult sample_lib 0 (Some 2) sample_oauth_world =
     (Inl (AuthError ''INVALID_TOKEN''), sample_oauth_world)
   \<and> calls (snd (getOAuthResult sample_lib 0 (Some 2) sample_oauth_world)) = []"
proof -
  have no_token: "model_get (objs sample_oauth_world 2) ''sessionToken'' = JUndefined"
    by (simp add: sample_oauth_objs sample_objs)
  show ?thesis
    using getOAuthResult_invalid_token[of None sample_oauth_world sample_lib 0]
      getOAuthResult_invalid_token[of "Some 2" sample_oauth_world sample_lib 0]
      no_token
    by (simp add: sample_oauth_objs)
qed

text \<open>
  Claim C3. When the account has a session token and \<^verbatim>\<open>generate\<close> resolves with an
  assertion, \<^verbatim>\<open>getOAuthResult\<close> calls \<^verbatim>\<open>generate\<close> and then applies the client's
  \<^verbatim>\<open>getCode\<close> to the parameter object: what \<^verbatim>\<open>getOAuthResult\<close> yields is the
  rejection of \<^verbatim>\<open>getCode\<close> on that very object, passed on unchanged, or its response
  on that very object, formatted by \<^verbatim>\<open>_formatOAuthResult\<close>. The parameter object
  has the keys \<^verbatim>\<open>assertion\<close>, \<^verbatim>\<open>client_id\<close>, \<^verbatim>\<open>scope\<close> and \<^verbatim>\<open>state\<close>,
  holding the assertion and the relier's \<^verbatim>\<open>clientId\<close>, \<^verbatim>\<open>scope\<close> and
  \<^verbatim>\<open>state\<close>. If the relier's \<^verbatim>\<open>accessType\<close> is the offline constant it has the
  key \<^verbatim>\<open>access_type\<close> as well, holding that constant; for any other
  \<^verbatim>\<open>accessType\<close> it has no such key, and these are all its keys.
\<close>

theorem getOAuthResult_access_type:
  assumes "truthy (model_get (objs w a) ''sessionToken'')"
    and "priv_assertionLibrary (brokers w this) = Some generate"
    and "generate (model_get (objs w a) ''sessionToken'') = Inr assertion"
    and "priv_oAuthClient (brokers w this) = Some getCode"
    and "params = oauthParams (objs w (relier (brokers w this))) assertion"
  shows "getOAuthResult l this (Some a) w =
           (case getCode params of
              Inl e \<Rightarrow>
                (Inl e,
                 w\<lparr>calls := calls w @
                    [Generate (model_get (objs w a) ''sessionToken''), GetCode params]\<rparr>)
            | Inr resp \<Rightarrow>
                formatOAuthResult l
                  (fst (materialize resp
                     (w\<lparr>calls := calls w @
                        [Generate (model_get (objs w a) ''sessionToken''), GetCode params]\<rparr>)))
                  (snd (materialize resp
                     (w\<lparr>calls := calls w @
                        [Generate (model_get (objs w a) ''sessionToken''), GetCode params]\<rparr>))))
         \<and> calls (snd (getOAuthResult l this (Some a) w)) =
           calls w @ [Generate (model_get (objs w a) ''sessionToken''), GetCode params]
         \<and> (if model_get (objs w (relier (brokers w this))) ''accessType'' = JStr ACCESS_TYPE_OFFLINE
            then params ''access_type'' = Some (JStr ACCESS_TYPE_OFFLINE)
               \<and> dom params = {''assertion'', ''client_id'', ''scope'', ''state'', ''access_type''}
            else params ''access_type'' = None
               \<and> dom params = {''assertion'', ''client_id'', ''scope'', ''state''})
         \<and> params ''assertion'' = Some assertion
         \<and> params ''client_id'' = Some (model_get (objs w (relier (brokers w this))) ''clientId'')
         \<and> params ''scope'' = Some (model_get (objs w (relier (brokers w this))) ''scope'')
         \<and> params ''state'' = Some (model_get (objs w (relier (brokers w this))) ''state'')"
proof -
  have outcome: "getOAuthResult l this (Some a) w =
           (case getCode params of
              Inl e \<Rightarrow>
                (Inl e,
                 w\<lparr>calls := calls w @
                    [Generate (model_get (objs w a) ''sessionToken''), GetCode params]\<rparr>)
            | Inr resp \<Rightarrow>
                formatOAuthResult l
                  (fst (materialize resp
                     (w\<lparr>calls := calls w @
                        [Generate (model_get (objs w a) ''sessionToken''), GetCode params]\<rparr>)))
                  (snd (materialize resp
                     (w\<lparr>calls := calls w @
                        [Generate (model_get (objs w a) ''sessionToken''), GetCode params]\<rparr>))))"
    using assms
    by (simp add: getOAuthResult_def getCode_then_format_def Let_def split_beta
          split: sum.splits)
  have log: "calls (snd (getOAuthResult l this (Some a) w)) =
             calls w @ [Generate (model_get (objs w a) ''sessionToken''), GetCode params]"
    using assms
    by (simp add: getOAuthResult_def getCode_then_format_def Let_def split_beta
          formatOAuthResult_frame materialize_frame split: sum.splits)
  have fields: "params ''assertion'' = Some assertion"
       "params ''client_id'' = Some (model_get (objs w (relier (brokers w this))) ''clientId'')"
       "params ''scope'' = Some (model_get (objs w (relier (brokers w this))) ''scope'')"
       "params ''state'' = Some (model_get (objs w (relier (brokers w this))) ''state'')"
    using assms(5) by (simp_all add: oauthParams_def Let_def)
  have flag: "if model_get (objs w (relier (brokers w this))) ''accessType'' = JStr ACCESS_TYPE_OFFLINE
            then params ''access_type'' = Some (JStr ACCESS_TYPE_OFFLINE)
               \<and> dom params = {''assertion'', ''client_id'', ''scope'', ''state'', ''access_type''}
            else params ''access_type'' = None
               \<and> dom params = {''assertion'', ''client_id'', ''scope'', ''state''}"
    using assms(5) by (auto simp: oauthParams_def Let_def)
  show ?thesis using outcome log fields flag by simp
qed

text \<open>
  On the sample store the client's response is formatted into the result. With a client
  that rejects any parameter object without the key \<^verbatim>\<open>access_type\<close>, the exchange
  goes through to the formatting for the relier that asks for offline access and is
  rejected by the client for a relier that asks for online access.
\<close>

theorem getOAuthResult_access_type_witness:
  "calls (snd (getOAuthResult sample_lib 0 (Some 1) sample_oauth_world)) =
     [Generate (JStr ''token''),
      GetCode (oauthParams (objs sample_oauth_world 0) (JStr ''assertion''))]
   \<and> oauthParams (objs sample_oauth_world 0) (JStr ''assertion'') ''access_type'' =
       Some (JStr ''offline'')
   \<and> dom (oauthParams (objs sample_oauth_world 0) (JStr ''assertion'')) =
       {''assertion'', ''client_id'', ''scope'', ''state'', ''access_type''}
   \<and> oauthParams ((objs sample_oauth_world 0)(''accessType'' \<mapsto> JStr ''online''))
        (JStr ''assertion'') ''access_type'' = None
   \<and> dom (oauthParams ((objs sample_oauth_world 0)(''accessType'' \<mapsto> JStr ''online''))
        (JStr ''assertion'')) =
       {''assertion'', ''client_id'', ''scope'', ''state''}
   \<and> fst (getOAuthResult sample_lib 0 (Some 1) sample_oauth_world) = Inr (JRef 6)
   \<and> fst (getOAuthResult sample_lib 0 (Some 1)
        (sample_oauth_world\<lparr>brokers := (brokers sample_oauth_world)
           (0 := (brokers sample_oauth_world 0)\<lparr>priv_oAuthClient :=
              Some (\<lambda>params. if params ''access_type'' = None
                              then Inl (Rejected (JStr ''online''))
                              else Inr (Primitive JNull))\<rparr>)\<rparr>)) =
       Inl (OAuthError ''INVALID_RESULT'')
   \<and> fst (getOAuthResult sample_lib 0 (Some 1)
        (prop_set 0 ''accessType'' (JStr ''online'')
          (sample_oauth_world\<lparr>brokers := (brokers sample_oauth_world)
             (0 := (brokers sample_oauth_world 0)\<lparr>priv_oAuthClient :=
                Some (\<lambda>params. if params ''access_type'' = None
                                then Inl (Rejected (JStr ''online''))
                                else Inr (Primitive JNull))\<rparr>)\<rparr>))) =
       Inl (Rejected (JStr ''online''))"
proof -
  let ?generate = "\<lambda>sessionToken::jsval. (Inr (JStr ''assertion'') :: error + jsval)"
  let ?client = "\<lambda>params::obj. (Inr (NewObject
      [''redirect'' \<mapsto> JStr ''https://rp/cb?state=S&code=c0de'']) :: error + response)"
  let ?strict = "\<lambda>params::obj. if params ''access_type'' = None
      then (Inl (Rejected (JStr ''online'')) :: error + response) else Inr (Primitive JNull)"
  let ?online = "prop_set 0 ''accessType'' (JStr ''online'') sample_oauth_world"
  let ?strict_world = "sample_oauth_world\<lparr>brokers := (brokers sample_oauth_world)
      (0 := (brokers sample_oauth_world 0)\<lparr>priv_oAuthClient := Some ?strict\<rparr>)\<rparr>"
  let ?strict_online = "prop_set 0 ''accessType'' (JStr ''online'') ?strict_world"
  have online: "objs ?online 0 = (objs sample_oauth_world 0)(''accessType'' \<mapsto> JStr ''online'')"
    "objs ?online 1 = objs sample_world 1"
    "brokers ?online = brokers sample_oauth_world"
    by (simp_all add: prop_set_def sample_oauth_objs sample_account_Suc)
  have online_type: "model_get (objs ?online 0) ''accessType'' = JStr ''online''"
    by (simp add: online model_get_def)
  have strict: "objs ?strict_world = objs sample_oauth_world"
    "relier (brokers ?strict_world 0) = 0"
    "priv_assertionLibrary (brokers ?strict_world 0) = Some ?generate"
    "priv_oAuthClient (brokers ?strict_world 0) = Some ?strict"
    by (simp_all add: sample_oauth_objs)
  have strict_online: "objs ?strict_online 0 =
      (objs sample_oauth_world 0)(''accessType'' \<mapsto> JStr ''online'')"
    "objs ?strict_online 1 = objs sample_world 1"
    "relier (brokers ?strict_online 0) = 0"
    "priv_assertionLibrary (brokers ?strict_online 0) = Some ?generate"
    "priv_oAuthClient (brokers ?strict_online 0) = Some ?strict"
    by (simp_all add: prop_set_def sample_oauth_objs sample_account_Suc)
  have next_free: "nextObj sample_oauth_world = 6"
    by (simp add: sample_oauth_world_def initialize_def new_model_def sample_world_def Let_def)
  have formatted: "fst (getOAuthResult sample_lib 0 (Some 1) sample_oauth_world) = Inr (JRef 6)"
    using getOAuthResult_access_type[of sample_oauth_world 1 0 ?generate "JStr ''assertion''"
        ?client "oauthParams (objs sample_oauth_world 0) (JStr ''assertion'')" sample_lib]
    apply (simp add: sample_oauth_objs sample_objs sample_account_Suc materialize_def
          new_model_def next_free)
    apply (simp add: formatOAuthResult_def prop_get_def prop_set_def model_get_def
          second_def Url_searchParam_def query_pair_def hex_code_valid_def sample_lib_def
          Let_def)
    done
  have offline_passes: "fst (getOAuthResult sample_lib 0 (Some 1) ?strict_world) =
      Inl (OAuthError ''INVALID_RESULT'')"
    using getOAuthResult_access_type[of ?strict_world 1 0 ?generate "JStr ''assertion''"
        ?strict "oauthParams (objs ?strict_world 0) (JStr ''assertion'')" sample_lib]
    by (simp add: strict sample_oauth_objs sample_objs sample_account_Suc
          ACCESS_TYPE_OFFLINE_def materialize_def formatOAuthResult_def)
  have strict_online_account: "objs ?strict_online (Suc 0) = objs sample_world (Suc 0)"
    using strict_online(2) by simp
  have strict_online_type: "model_get (objs ?strict_online 0) ''accessType'' = JStr ''online''"
    by (simp add: strict_online(1) model_get_def)
  have no_flag: "oauthParams (objs ?strict_online 0) (JStr ''assertion'') ''access_type'' = None"
    using strict_online_type by (simp add: oauthParams_def Let_def ACCESS_TYPE_OFFLINE_def)
  have online_rejected: "fst (getOAuthResult sample_lib 0 (Some 1) ?strict_online) =
      Inl (Rejected (JStr ''online''))"
    using getOAuthResult_access_type[of ?strict_online 1 0 ?generate "JStr ''assertion''"
        ?strict "oauthParams (objs ?strict_online 0) (JStr ''assertion'')" sample_lib]
      no_flag
    by (simp add: strict_online(3,4,5) strict_online_account sample_account_Suc)
  have params: "calls (snd (getOAuthResult sample_lib 0 (Some 1) sample_oauth_world)) =
     [Generate (JStr ''token''),
      GetCode (oauthParams (objs sample_oauth_world 0) (JStr ''assertion''))]
   \<and> oauthParams (objs sample_oauth_world 0) (JStr ''assertion'') ''access_type'' =
       Some (JStr ''offline'')
   \<and> dom (oauthParams (objs sample_oauth_world 0) (JStr ''assertion'')) =
       {''assertion'', ''client_id'', ''scope'', ''state'', ''access_type''}
   \<and> oauthParams ((objs sample_oauth_world 0)(''accessType'' \<mapsto> JStr ''online''))
        (JStr ''assertion'') ''access_type'' = None
   \<and> dom (oauthParams ((objs sample_oauth_world 0)(''accessType'' \<mapsto> JStr ''online''))
        (JStr ''assertion'')) =
       {''assertion'', ''client_id'', ''scope'', ''state''}"
    using getOAuthResult_access_type[of sample_oauth_world 1 0 ?generate "JStr ''assertion''"
        ?client "oauthParams (objs sample_oauth_world 0) (JStr ''assertion'')" sample_lib,
        THEN conjunct2]
      getOAuthResult_access_type[of ?online 1 0 ?generate "JStr ''assertion''"
        ?client "oauthParams (objs ?online 0) (JStr ''assertion'')" sample_lib,
        THEN conjunct2]
      online online_type
    by (simp add: sample_oauth_objs sample_objs sample_account_Suc ACCESS_TYPE_OFFLINE_def)
  show ?thesis using params formatted offline_passes online_rejected by simp
qed

text \<open>
  Claim C2, as the code has it. \<^verbatim>\<open>_formatOAuthResult\<close> rejects a falsy result with
  \<^verbatim>\<open>INVALID_RESULT\<close> and a result whose redirect is falsy with
  \<^verbatim>\<open>INVALID_RESULT_REDIRECT\<close>, changing nothing; a truthy redirect that is not a string
  makes it throw. Otherwise it reads \<^verbatim>\<open>state\<close> and \<^verbatim>\<open>code\<close> from the query string
  of the redirect, writes both onto the result object it was given, and then rejects
  with \<^verbatim>\<open>INVALID_RESULT_CODE\<close> if the code fails the validator and resolves with that
  same object if it passes. The store afterwards is the store before with these two
  properties written, whether the code was valid or not.
\<close>

theorem formatOAuthResult_cases:
  "(\<not> truthy result \<longrightarrow>
      formatOAuthResult l result w = (Inl (OAuthError ''INVALID_RESULT''), w))
   \<and> (truthy result \<and> \<not> truthy (prop_get w result ''redirect'') \<longrightarrow>
      formatOAuthResult l result w = (Inl (OAuthError ''INVALID_RESULT_REDIRECT''), w))
   \<and> (truthy (prop_get w result ''redirect'') \<and> (\<forall>s. prop_get w result ''redirect'' \<noteq> JStr s) \<longrightarrow>
      formatOAuthResult l result w = (Inl TypeError, w))
   \<and> (\<forall>r redirect.
        result = JRef r \<and> prop_get w result ''redirect'' = JStr redirect \<and> redirect \<noteq> [] \<longrightarrow>
        formatOAuthResult l result w =
          (let redirectParams = second (split_on CHR ''?'' redirect);
               state = searchParam l ''state'' redirectParams;
               code = searchParam l ''code'' redirectParams
           in (if isOAuthCodeValid l code then Inr result
               else Inl (OAuthError ''INVALID_RESULT_CODE''),
               w\<lparr>objs := (objs w)(r := (objs w r)(''state'' \<mapsto> state, ''code'' \<mapsto> code))\<rparr>)))"
  by (auto simp: formatOAuthResult_def prop_get_def prop_set_def model_get_def Let_def
        split: jsval.splits)

text \<open>The result object of the sample store, and the same object with a hexadecimal code.\<close>

lemma sample_result:
  "prop_get sample_world (JRef 3) ''redirect'' = JStr ''https://rp/cb?state=S&code=C''"
  "prop_get sample_world (JRef 2) ''redirect'' = JUndefined"
  "prop_get (prop_set 3 ''redirect'' (JStr ''https://rp/cb?state=S&code=c0de'') sample_world)
     (JRef 3) ''redirect'' = JStr ''https://rp/cb?state=S&code=c0de''"
  by (simp_all add: prop_get_def prop_set_def model_get_def sample_world_def
        Object_prototype_def)

lemma prop_get_prop_set: "prop_get (prop_set r k v w) (JRef r) k = v"
  by (simp add: prop_get_def prop_set_def model_get_def)

lemma sample_query:
  "Url_searchParam ''state'' (JStr ''state=S&code=C'') = JStr ''S''"
  "Url_searchParam ''code'' (JStr ''state=S&code=C'') = JStr ''C''"
  "Url_searchParam ''state'' (JStr ''state=S&code=c0de'') = JStr ''S''"
  "Url_searchParam ''code'' (JStr ''state=S&code=c0de'') = JStr ''c0de''"
  "\<not> hex_code_valid (JStr ''C'')"
  "hex_code_valid (JStr ''c0de'')"
  by (simp_all add: Url_searchParam_def query_pair_def hex_code_valid_def)

theorem formatOAuthResult_cases_witness:
  "formatOAuthResult sample_lib JUndefined sample_world =
     (Inl (OAuthError ''INVALID_RESULT''), sample_world)
   \<and> formatOAuthResult sample_lib (JRef 2) sample_world =
     (Inl (OAuthError ''INVALID_RESULT_REDIRECT''), sample_world)
   \<and> fst (formatOAuthResult sample_lib (JRef 3) sample_world) =
     Inl (OAuthError ''INVALID_RESULT_CODE'')
   \<and> fst (formatOAuthResult sample_lib (JRef 3)
            (prop_set 3 ''redirect'' (JStr ''https://rp/cb?state=S&code=c0de'') sample_world)) =
     Inr (JRef 3)
   \<and> objs (snd (formatOAuthResult sample_lib (JRef 3)
            (prop_set 3 ''redirect'' (JStr ''https://rp/cb?state=S&code=c0de'') sample_world)))
        3 ''code'' = Some (JStr ''c0de'')"
proof -
  let ?valid = "prop_set 3 ''redirect'' (JStr ''https://rp/cb?state=S&code=c0de'') sample_world"
  have absent: "formatOAuthResult sample_lib JUndefined sample_world =
      (Inl (OAuthError ''INVALID_RESULT''), sample_world)"
    using formatOAuthResult_cases[of JUndefined sample_lib sample_world] by simp
  have no_redirect: "formatOAuthResult sample_lib (JRef 2) sample_world =
      (Inl (OAuthError ''INVALID_RESULT_REDIRECT''), sample_world)"
    using formatOAuthResult_cases[of "JRef 2" sample_lib sample_world]
    by (simp add: sample_result)
  have bad_code: "fst (formatOAuthResult sample_lib (JRef 3) sample_world) =
      Inl (OAuthError ''INVALID_RESULT_CODE'')"
    using formatOAuthResult_cases[of "JRef 3" sample_lib sample_world]
    by (simp add: sample_result sample_query sample_lib_def second_def Let_def)
  have good_code: "formatOAuthResult sample_lib (JRef 3) ?valid =
      (Inr (JRef 3),
       ?valid\<lparr>objs := (objs ?valid)
          (3 := (objs ?valid 3)(''state'' \<mapsto> JStr ''S'', ''code'' \<mapsto> JStr ''c0de''))\<rparr>)"
    using formatOAuthResult_cases[of "JRef 3" sample_lib ?valid]
    by (simp add: sample_result sample_query sample_lib_def second_def Let_def)
  show ?thesis
    using absent no_redirect bad_code by (simp add: good_code)
qed

text \<open>
  The claim as the spec states it says that the function has no side effects. On the
  sample result object, whose code is not valid, it rejects with
  \<^verbatim>\<open>INVALID_RESULT_CODE\<close>, and yet the object passed in, which had neither a
  \<^verbatim>\<open>code\<close> nor a \<^verbatim>\<open>state\<close>, has both afterwards: the store has changed.
\<close>

theorem formatOAuthResult_side_effect_counterexample:
  "fst (formatOAuthResult sample_lib (JRef 3) sample_world) =
     Inl (OAuthError ''INVALID_RESULT_CODE'')
   \<and> objs sample_world 3 ''code'' = None
   \<and> objs sample_world 3 ''state'' = None
   \<and> objs (snd (formatOAuthResult sample_lib (JRef 3) sample_world)) 3 ''code'' =
       Some (JStr ''C'')
   \<and> objs (snd (formatOAuthResult sample_lib (JRef 3) sample_world)) 3 ''state'' =
       Some (JStr ''S'')
   \<and> snd (formatOAuthResult sample_lib (JRef 3) sample_world) \<noteq> sample_world"
proof -
  have before: "objs sample_world 3 ''code'' = None" "objs sample_world 3 ''state'' = None"
    by (simp_all add: sample_world_def)
  have run: "formatOAuthResult sample_lib (JRef 3) sample_world =
      (Inl (OAuthError ''INVALID_RESULT_CODE''),
       prop_set 3 ''code'' (JStr ''C'') (prop_set 3 ''state'' (JStr ''S'') sample_world))"
    by (simp add: formatOAuthResult_def sample_result sample_query sample_lib_def second_def
          Let_def prop_get_prop_set)
  have after: "objs (snd (formatOAuthResult sample_lib (JRef 3) sample_world)) 3 ''code'' =
       Some (JStr ''C'')"
    "objs (snd (formatOAuthResult sample_lib (JRef 3) sample_world)) 3 ''state'' =
       Some (JStr ''S'')"
    by (simp_all add: run prop_set_def)
  have "snd (formatOAuthResult sample_lib (JRef 3) sample_world) \<noteq> sample_world"
    using before(1) after(1) by auto
  then show ?thesis using before after run by simp
qed

text \<open>
  Claim C8. \<^verbatim>\<open>finishOAuthFlow\<close> is not atomic: whenever \<^verbatim>\<open>getOAuthResult\<close> fails
  for the account, \<^verbatim>\<open>finishOAuthFlow\<close> rejects with the same error, and the session
  has no \<^verbatim>\<open>oauth\<close> entry afterwards, because the entry is cleared before the exchange
  is attempted.
\<close>

theorem finishOAuthFlow_not_atomic:
  assumes "fst (getOAuthResult l this account w) = Inl e"
  shows "fst (finishOAuthFlow l this account additionalResultData w) = Inl e
         \<and> session (snd (finishOAuthFlow l this account additionalResultData w)) ''oauth'' = None"
  using assms
  by (simp add: finishOAuthFlow_def session_clear_def Let_def getOAuthResult_session
        getOAuthResult_frame split: prod.splits sum.splits)

theorem finishOAuthFlow_not_atomic_witness:
  "fst (getOAuthResult sample_lib 0 (Some 2) sample_oauth_world) = Inl (AuthError ''INVALID_TOKEN'')
   \<and> session sample_oauth_world ''oauth'' \<noteq> None
   \<and> fst (finishOAuthFlow sample_lib 0 (Some 2) [''action'' \<mapsto> JStr ''signin'']
            sample_oauth_world) = Inl (AuthError ''INVALID_TOKEN'')
   \<and> session (snd (finishOAuthFlow sample_lib 0 (Some 2) [''action'' \<mapsto> JStr ''signin'']
            sample_oauth_world)) ''oauth'' = None"
proof -
  have fails: "fst (getOAuthResult sample_lib 0 (Some 2) sample_oauth_world) =
      Inl (AuthError ''INVALID_TOKEN'')"
    by (simp add: getOAuthResult_def sample_oauth_objs sample_objs)
  have pending: "session sample_oauth_world ''oauth'' \<noteq> None"
    by (simp add: sample_oauth_objs sample_world_def)
  show ?thesis
    using finishOAuthFlow_not_atomic[OF fails, of "[''action'' \<mapsto> JStr ''signin'']"]
      fails pending
    by simp
qed

section \<open>Verification data\<close>

text \<open>Clearing a record that is not there, and persisting, clearing and clearing again.\<close>

lemma unpersist_absent:
  assumes "vm_read ''context'' (model_get (objs w a) ''uid'') w = None"
  shows "unpersistVerificationData this (Some a) w = (Inr (), w)"
proof -
  have "(storage w)((''context'', model_get (objs w a) ''uid'') := None) = storage w"
    using assms by (simp add: vm_read_def fun_upd_idem)
  then show ?thesis
    by (simp add: unpersistVerificationData_def clearSameBrowserVerificationModel_def
          createSameBrowserVerificationModel_def vm_clear_def)
qed

lemma persist_unpersist_twice:
  assumes "persistVerificationData this (Some a) w = (r1, w1)"
    and "unpersistVerificationData this (Some a) w1 = (r2, w2)"
    and "unpersistVerificationData this (Some a) w2 = (r3, w3)"
    and "uid = model_get (objs w a) ''uid''"
  shows "r1 = Inr () \<and> vm_read ''context'' uid w1 \<noteq> None
         \<and> r2 = Inr () \<and> vm_read ''context'' uid w2 = None
         \<and> r3 = Inr () \<and> w3 = w2"
  using assms
  by (auto simp: persistVerificationData_def base_persistVerificationData_def
        oauth_persistVerificationData_def session_set_def vm_persist_def vm_clear_def
        vm_read_def Let_def createSameBrowserVerificationModel_def
        unpersistVerificationData_def clearSameBrowserVerificationModel_def
        split: broker_class.splits)

text \<open>
  Claim C7. For every account, \<^verbatim>\<open>persistVerificationData\<close> succeeds and leaves a
  record under the key (\<^verbatim>\<open>context\<close>, uid of the account); a following
  \<^verbatim>\<open>unpersistVerificationData\<close> succeeds and leaves no record under that key; a
  second \<^verbatim>\<open>unpersistVerificationData\<close> succeeds as well and changes nothing; and on
  any store without a record for the account, \<^verbatim>\<open>unpersistVerificationData\<close> succeeds
  and changes nothing. This holds for the base broker and for the OAuth broker.
\<close>

theorem persist_then_unpersist:
  assumes "persistVerificationData this (Some a) w = (r1, w1)"
    and "unpersistVerificationData this (Some a) w1 = (r2, w2)"
    and "unpersistVerificationData this (Some a) w2 = (r3, w3)"
    and "uid = model_get (objs w a) ''uid''"
  shows "r1 = Inr () \<and> vm_read ''context'' uid w1 \<noteq> None
         \<and> r2 = Inr () \<and> vm_read ''context'' uid w2 = None
         \<and> r3 = Inr () \<and> w3 = w2
         \<and> (vm_read ''context'' uid w = None \<longrightarrow>
              unpersistVerificationData this (Some a) w = (Inr (), w))"
  using persist_unpersist_twice[OF assms] unpersist_absent[of w a this] assms(4) by simp

theorem persist_then_unpersist_witness:
  "vm_read ''context'' (JStr ''uid1'') sample_oauth_world = None
   \<and> unpersistVerificationData 0 (Some 1) sample_oauth_world = (Inr (), sample_oauth_world)
   \<and> fst (persistVerificationData 0 (Some 1) sample_oauth_world) = Inr ()
   \<and> vm_read ''context'' (JStr ''uid1'')
        (snd (persistVerificationData 0 (Some 1) sample_oauth_world)) \<noteq> None
   \<and> vm_read ''context'' (JStr ''uid1'')
        (snd (unpersistVerificationData 0 (Some 1)
           (snd (persistVerificationData 0 (Some 1) sample_oauth_world)))) = None"
proof -
  let ?p = "persistVerificationData 0 (Some 1) sample_oauth_world"
  let ?u = "unpersistVerificationData 0 (Some 1) (snd ?p)"
  let ?v = "unpersistVerificationData 0 (Some 1) (snd ?u)"
  have uid: "JStr ''uid1'' = model_get (objs sample_oauth_world 1) ''uid''"
    by (simp add: sample_oauth_objs sample_objs sample_account_Suc)
  have none: "vm_read ''context'' (JStr ''uid1'') sample_oauth_world = None"
    by (simp add: vm_read_def sample_oauth_objs)
  show ?thesis
    using persist_then_unpersist[of 0 1 sample_oauth_world "fst ?p" "snd ?p" "fst ?u" "snd ?u"
        "fst ?v" "snd ?v" "JStr ''uid1''"] uid none
    by simp
qed

text \<open>
  What the OAuth broker's \<^verbatim>\<open>persistVerificationData\<close> keeps in the session: the
  relier's \<^verbatim>\<open>clientId\<close>, \<^verbatim>\<open>scope\<close>, \<^verbatim>\<open>state\<close> and \<^verbatim>\<open>keys\<close>, and, as the
  access type, the relier's attribute \<^verbatim>\<open>access_type\<close>.
\<close>

lemma oauth_persistVerificationData_session:
  assumes "btype (brokers w this) = OAuth"
    and "relierAttrs = objs w (relier (brokers w this))"
    and "kept = session (snd (persistVerificationData this (Some a) w)) ''oauth''"
  shows "map_option (\<lambda>record. record ''client_id'') kept =
           Some (Some (model_get relierAttrs ''clientId''))"
    and "map_option (\<lambda>record. record ''scope'') kept = Some (Some (model_get relierAttrs ''scope''))"
    and "map_option (\<lambda>record. record ''state'') kept = Some (Some (model_get relierAttrs ''state''))"
    and "map_option (\<lambda>record. record ''keys'') kept = Some (Some (model_get relierAttrs ''keys''))"
    and "map_option (\<lambda>record. record ''access_type'') kept =
           Some (Some (model_get relierAttrs ''access_type''))"
  using assms
  by (simp_all add: persistVerificationData_def oauth_persistVerificationData_def
        base_persistVerificationData_def createSameBrowserVerificationModel_def session_set_def
        vm_persist_def Let_def)

text \<open>
  Claim C6 at a concrete input. The relier of the sample store asks for offline access
  under \<^verbatim>\<open>accessType\<close>, the attribute that \<^verbatim>\<open>getOAuthResult\<close> reads. The OAuth
  broker's \<^verbatim>\<open>persistVerificationData\<close> succeeds, writes the base broker's record under
  (\<^verbatim>\<open>context\<close>, uid), and keeps the client id, the scope, the state and the keys flag
  in the session; but the access type it keeps is \<^verbatim>\<open>undefined\<close>, because it reads
  the relier's attribute \<^verbatim>\<open>access_type\<close>.
\<close>

theorem persistVerificationData_access_type_lost:
  "btype (brokers sample_oauth_world 0) = OAuth
   \<and> model_get (objs sample_oauth_world (relier (brokers sample_oauth_world 0))) ''accessType'' =
       JStr ''offline''
   \<and> fst (persistVerificationData 0 (Some 1) sample_oauth_world) = Inr ()
   \<and> map_option (\<lambda>record. record ''access_type'')
        (session (snd (persistVerificationData 0 (Some 1) sample_oauth_world)) ''oauth'') =
       Some (Some JUndefined)
   \<and> map_option (\<lambda>record. record ''client_id'')
        (session (snd (persistVerificationData 0 (Some 1) sample_oauth_world)) ''oauth'') =
       Some (Some (JStr ''dcdb5ae7add825d2''))
   \<and> map_option (\<lambda>record. record ''keys'')
        (session (snd (persistVerificationData 0 (Some 1) sample_oauth_world)) ''oauth'') =
       Some (Some (JBool True))
   \<and> map_option (\<lambda>record. (record ''email'', record ''context''))
        (vm_read ''context'' (JStr ''uid1'')
           (snd (persistVerificationData 0 (Some 1) sample_oauth_world))) =
       Some (Some (JStr ''a@b.c''), Some (JStr ''oauth''))"
  by (simp add: persistVerificationData_def oauth_persistVerificationData_def
        base_persistVerificationData_def createSameBrowserVerificationModel_def session_set_def
        vm_persist_def vm_read_def model_set_def Let_def sample_oauth_objs sample_objs
        sample_account_Suc)

section \<open>The cached force-auth flag\<close>

text \<open>
  No method but \<^verbatim>\<open>fetch\<close> and the constructor writes to a broker instance, and the
  constructor writes to the new instance only.
\<close>

lemma extend_frame:
  "brokers (extend target source w) = brokers w"
  "nextBroker (extend target source w) = nextBroker w"
  by (simp_all add: extend_def split: jsval.splits)

lemma finishOAuthFlow_frame:
  "brokers (snd (finishOAuthFlow l this account extra w)) = brokers w"
  "nextBroker (snd (finishOAuthFlow l this account extra w)) = nextBroker w"
proof -
  obtain r w2 where g: "getOAuthResult l this account (session_clear ''oauth'' w) = (r, w2)"
    by (cases "getOAuthResult l this account (session_clear ''oauth'' w)")
  have w2: "brokers w2 = brokers w" "nextBroker w2 = nextBroker w"
    using getOAuthResult_frame(1,2)[of l this account "session_clear ''oauth'' w"] g
    by (simp_all add: session_clear_def)
  show "brokers (snd (finishOAuthFlow l this account extra w)) = brokers w"
    using w2 by (cases r) (simp_all add: finishOAuthFlow_def g sendOAuthResultToRelier_def extend_frame)
  show "nextBroker (snd (finishOAuthFlow l this account extra w)) = nextBroker w"
    using w2 by (cases r) (simp_all add: finishOAuthFlow_def g sendOAuthResultToRelier_def extend_frame)
qed

lemma finishOAuthSignFlow_frame:
  "brokers (snd (finishOAuthSignInFlow l this account w)) = brokers w"
  "nextBroker (snd (finishOAuthSignInFlow l this account w)) = nextBroker w"
  "brokers (snd (finishOAuthSignUpFlow l this account w)) = brokers w"
  "nextBroker (snd (finishOAuthSignUpFlow l this account w)) = nextBroker w"
  by (simp_all add: finishOAuthSignInFlow_def finishOAuthSignUpFlow_def finishOAuthFlow_frame)

lemma unpersistVerificationData_frame:
  "brokers (snd (unpersistVerificationData this account w)) = brokers w"
  "nextBroker (snd (unpersistVerificationData this account w)) = nextBroker w"
  by (simp_all add: unpersistVerificationData_def clearSameBrowserVerificationModel_def
        vm_clear_def split: sum.splits)

lemma base_persistVerificationData_frame:
  "brokers (snd (base_persistVerificationData this account w)) = brokers w"
  "nextBroker (snd (base_persistVerificationData this account w)) = nextBroker w"
  by (simp_all add: base_persistVerificationData_def vm_persist_def Let_def split: sum.splits)

lemma persistVerificationData_frame:
  "brokers (snd (persistVerificationData this account w)) = brokers w"
  "nextBroker (snd (persistVerificationData this account w)) = nextBroker w"
  by (simp_all add: persistVerificationData_def oauth_persistVerificationData_def
        base_persistVerificationData_frame session_set_def Let_def
        split: broker_class.splits)

lemma unpersist_then_behavior_frame:
  "brokers (snd (unpersist_then_behavior h this account w)) = brokers w"
  "nextBroker (snd (unpersist_then_behavior h this account w)) = nextBroker w"
proof -
  obtain r w1 where u: "unpersistVerificationData this account w = (r, w1)"
    by (cases "unpersistVerificationData this account w")
  have w1: "brokers w1 = brokers w" "nextBroker w1 = nextBroker w"
    using unpersistVerificationData_frame[of this account w] u by simp_all
  show "brokers (snd (unpersist_then_behavior h this account w)) = brokers w"
    using w1 by (cases r) (simp_all add: unpersist_then_behavior_def u)
  show "nextBroker (snd (unpersist_then_behavior h this account w)) = nextBroker w"
    using w1 by (cases r) (simp_all add: unpersist_then_behavior_def u)
qed

lemma base_hook_brokers: "brokers (snd (base_hook h this account w)) = brokers w"
  by (cases h) (simp_all add: unpersist_then_behavior_frame)

lemma base_hook_nextBroker: "nextBroker (snd (base_hook h this account w)) = nextBroker w"
  by (cases h) (simp_all add: unpersist_then_behavior_frame)

lemma finish_then_base_frame:
  "brokers (snd (finish_then_base l h this account w)) = brokers w"
  "nextBroker (snd (finish_then_base l h this account w)) = nextBroker w"
proof -
  obtain r w1 where f: "finishOAuthSignInFlow l this account w = (r, w1)"
    by (cases "finishOAuthSignInFlow l this account w")
  have w1: "brokers w1 = brokers w" "nextBroker w1 = nextBroker w"
    using finishOAuthSignFlow_frame(1,2)[of l this account w] f by simp_all
  show "brokers (snd (finish_then_base l h this account w)) = brokers w"
    using w1 by (cases r) (simp_all add: finish_then_base_def f base_hook_brokers)
  show "nextBroker (snd (finish_then_base l h this account w)) = nextBroker w"
    using w1 by (cases r) (simp_all add: finish_then_base_def f base_hook_nextBroker)
qed

lemma oauth_hook_brokers: "brokers (snd (oauth_hook l h this account w)) = brokers w"
  by (cases h)
     (simp_all add: finish_then_base_frame unpersist_then_behavior_frame finishOAuthSignFlow_frame)

lemma oauth_hook_nextBroker: "nextBroker (snd (oauth_hook l h this account w)) = nextBroker w"
  by (cases h)
     (simp_all add: finish_then_base_frame unpersist_then_behavior_frame finishOAuthSignFlow_frame)

lemma invoke_hook_frame:
  "brokers (snd (invoke_hook l h this account w)) = brokers w"
  "nextBroker (snd (invoke_hook l h this account w)) = nextBroker w"
  by (simp_all add: invoke_hook_def oauth_hook_brokers oauth_hook_nextBroker base_hook_brokers
        base_hook_nextBroker split: broker_class.splits)

lemma fetch_other:
  "b \<noteq> this \<Longrightarrow> brokers (snd (fetch this w)) b = brokers w b"
  "nextBroker (snd (fetch this w)) = nextBroker w"
  by (simp_all add: fetch_def importSearchParamsUsingSchema_def Let_def split: option.splits)

lemma fetch_isForceAuth:
  "isForceAuth b (snd (fetch b w)) = isForceAuthUrl b w"
  by (simp add: isForceAuth_def fetch_def importSearchParamsUsingSchema_def Let_def
        split: option.splits)

lemma initialize_existing:
  "b < nextBroker w \<Longrightarrow> brokers (snd (initialize cls opts w)) b = brokers w b"
  "nextBroker (snd (initialize cls opts w)) = Suc (nextBroker w)"
  by (simp_all add: initialize_def new_model_def Let_def)

lemma exec_keeps_broker:
  assumes "b < nextBroker w" and "s \<noteq> Fetch b"
  shows "brokers (exec l w s) b = brokers w b \<and> b < nextBroker (exec l w s)"
  using assms
  by (cases s)
     (auto simp: apply_op_brokers apply_op_nextBroker fetch_other persistVerificationData_frame
        unpersistVerificationData_frame finishOAuthFlow_frame invoke_hook_frame
        initialize_existing)

lemma run_keeps_broker:
  "b < nextBroker w \<Longrightarrow> Fetch b \<notin> set steps \<Longrightarrow>
   brokers (run l steps w) b = brokers w b \<and> b < nextBroker (run l steps w)"
proof (induction steps arbitrary: w)
  case Nil
  then show ?case by (simp add: run_def)
next
  case (Cons s steps)
  have s: "s \<noteq> Fetch b" and rest: "Fetch b \<notin> set steps" using Cons.prems(2) by auto
  note k = exec_keeps_broker[OF Cons.prems(1) s, of l]
  have "run l (s # steps) w = run l steps (exec l w s)" by (simp add: run_def)
  then show ?case using Cons.IH[of "exec l w s"] k rest by simp
qed

text \<open>
  Claim C9. \<^verbatim>\<open>isForceAuth\<close> is \<^verbatim>\<open>!! this._isForceAuth\<close>, a total function to the
  booleans: it cannot throw. Right after \<^verbatim>\<open>fetch\<close>, whether its import of the query
  parameters succeeded or not, it answers true exactly when the pathname of the
  broker's window at the time of the call was \<^verbatim>\<open>/force_auth\<close> or
  \<^verbatim>\<open>/oauth/force_auth\<close>. On a broker that was constructed and on which \<^verbatim>\<open>fetch\<close>
  has not been called since, it answers false, whatever else has happened. And no step
  other than a \<^verbatim>\<open>fetch\<close> on the same broker (a registry call, a lifecycle hook, the
  persisting or clearing of verification data, the end of an OAuth flow, on this or
  another broker, the construction of a broker, a \<^verbatim>\<open>fetch\<close> on another broker, a
  navigation of the window) changes its answer.
\<close>

theorem isForceAuth_cached:
  "isForceAuth b (snd (fetch b w)) =
      (pathname (windows w (window (brokers w b))) \<in> {''/force_auth'', ''/oauth/force_auth''})
   \<and> (initialize cls opts w0 = (b, w1) \<and> Fetch b \<notin> set steps \<longrightarrow>
        isForceAuth b (run l steps w1) = False)
   \<and> (b < nextBroker w \<and> Fetch b \<notin> set steps \<longrightarrow>
        isForceAuth b (run l steps w) = isForceAuth b w)"
proof (intro conjI impI)
  show "isForceAuth b (snd (fetch b w)) =
      (pathname (windows w (window (brokers w b))) \<in> {''/force_auth'', ''/oauth/force_auth''})"
    by (simp add: fetch_isForceAuth isForceAuthUrl_def Let_def)
next
  assume a: "initialize cls opts w0 = (b, w1) \<and> Fetch b \<notin> set steps"
  then have "b < nextBroker w1" and "priv_isForceAuth (brokers w1 b) = JUndefined"
    by (auto simp: initialize_def new_model_def Let_def)
  then show "isForceAuth b (run l steps w1) = False"
    using run_keeps_broker[of b w1 steps l] a by (simp add: isForceAuth_def)
next
  assume "b < nextBroker w \<and> Fetch b \<notin> set steps"
  then show "isForceAuth b (run l steps w) = isForceAuth b w"
    using run_keeps_broker[of b w steps l] by (simp add: isForceAuth_def)
qed

theorem isForceAuth_cached_witness:
  "isForceAuth 0 (snd (fetch 0 sample_base_world))
   \<and> \<not> isForceAuth 0
        (run sample_lib
           [Registry 0 (SetCapability ''signup'' (JBool False)),
            InvokeHook AfterSignIn 0 (Some 1),
            Navigate 0 \<lparr> pathname = ''/signin'', search = Map.empty \<rparr>]
           sample_base_world)
   \<and> isForceAuth 0
        (run sample_lib
           [Navigate 0 \<lparr> pathname = ''/settings'', search = Map.empty \<rparr>,
            PersistVerificationData 0 (Some 1),
            Initialize OAuth sample_options,
            Fetch 1]
           (snd (fetch 0 sample_base_world)))"
proof -
  have path: "pathname (windows sample_base_world (window (brokers sample_base_world 0))) =
      ''/oauth/force_auth''"
    by (simp add: sample_base_world_def initialize_def new_model_def sample_world_def Let_def
          sample_options_def global_window_def)
  have allocated: "0 < nextBroker (snd (fetch 0 sample_base_world))"
    by (simp add: fetch_other sample_base_world_def initialize_existing)
  have fetched: "isForceAuth 0 (snd (fetch 0 sample_base_world))"
    using isForceAuth_cached[of 0 sample_base_world] path by simp
  show ?thesis
    using fetched allocated
      isForceAuth_cached[of 0 sample_base_world Base sample_options sample_world
        sample_base_world
        "[Registry 0 (SetCapability ''signup'' (JBool False)),
          InvokeHook AfterSignIn 0 (Some 1),
          Navigate 0 \<lparr> pathname = ''/signin'', search = Map.empty \<rparr>]" sample_lib]
      isForceAuth_cached[of 0 "snd (fetch 0 sample_base_world)" Base sample_options sample_world
        sample_base_world
        "[Navigate 0 \<lparr> pathname = ''/settings'', search = Map.empty \<rparr>,
          PersistVerificationData 0 (Some 1),
          Initialize OAuth sample_options,
          Fetch 1]" sample_lib]
      sample_base_created
    by simp
qed

section \<open>Isolation of broker instances\<close>

text \<open>
  No step moves the registries of a broker that exists, and addresses of objects are
  never reused: the next free address only grows.
\<close>

lemma formatOAuthResult_nextObj: "nextObj (snd (formatOAuthResult l result w)) = nextObj w"
  by (auto simp: formatOAuthResult_def prop_set_def Let_def split: jsval.splits)

lemma materialize_nextObj: "nextObj w \<le> nextObj (snd (materialize resp w))"
  by (auto simp: materialize_def new_model_def Let_def split: response.splits)

lemma getCode_then_format_nextObj:
  "nextObj w \<le> nextObj (snd (getCode_then_format l this params w))"
proof (cases "priv_oAuthClient (brokers w this)")
  case None
  then show ?thesis by (simp add: getCode_then_format_def)
next
  case (Some getCode)
  show ?thesis
  proof (cases "getCode params")
    case (Inl e)
    then show ?thesis using Some by (simp add: getCode_then_format_def Let_def)
  next
    case (Inr resp)
    have "nextObj (w\<lparr>calls := calls w @ [GetCode params]\<rparr>) \<le>
          nextObj (snd (materialize resp (w\<lparr>calls := calls w @ [GetCode params]\<rparr>)))"
      by (rule materialize_nextObj)
    then show ?thesis using Some Inr
      by (simp add: getCode_then_format_def Let_def split_beta formatOAuthResult_nextObj)
  qed
qed

lemma getOAuthResult_nextObj: "nextObj w \<le> nextObj (snd (getOAuthResult l this account w))"
proof -
  have step: "nextObj w \<le> nextObj (snd (getCode_then_format l this params (w\<lparr>calls := c\<rparr>)))"
    for params c
    using getCode_then_format_nextObj[of "w\<lparr>calls := c\<rparr>" l this params] by simp
  show ?thesis
    by (simp add: getOAuthResult_def Let_def step split: option.splits sum.splits)
qed

lemma extend_nextObj: "nextObj (extend target source w) = nextObj w"
  by (simp add: extend_def split: jsval.splits)

lemma finishOAuthFlow_nextObj:
  "nextObj w \<le> nextObj (snd (finishOAuthFlow l this account extra w))"
proof -
  obtain r w2 where g: "getOAuthResult l this account (session_clear ''oauth'' w) = (r, w2)"
    by (cases "getOAuthResult l this account (session_clear ''oauth'' w)")
  have "nextObj w \<le> nextObj w2"
    using getOAuthResult_nextObj[of "session_clear ''oauth'' w" l this account] g
    by (simp add: session_clear_def)
  then show ?thesis
    by (cases r) (simp_all add: finishOAuthFlow_def g sendOAuthResultToRelier_def extend_nextObj)
qed

lemma unpersistVerificationData_nextObj:
  "nextObj (snd (unpersistVerificationData this account w)) = nextObj w"
  by (simp add: unpersistVerificationData_def clearSameBrowserVerificationModel_def
        vm_clear_def split: sum.splits)

lemma persistVerificationData_nextObj:
  "nextObj (snd (persistVerificationData this account w)) = nextObj w"
  by (simp add: persistVerificationData_def oauth_persistVerificationData_def
        base_persistVerificationData_def vm_persist_def session_set_def Let_def
        split: broker_class.splits sum.splits)

lemma unpersist_then_behavior_nextObj:
  "nextObj (snd (unpersist_then_behavior h this account w)) = nextObj w"
proof -
  obtain r w1 where u: "unpersistVerificationData this account w = (r, w1)"
    by (cases "unpersistVerificationData this account w")
  have "nextObj w1 = nextObj w"
    using unpersistVerificationData_nextObj[of this account w] u by simp
  then show ?thesis by (cases r) (simp_all add: unpersist_then_behavior_def u)
qed

lemma base_hook_nextObj: "nextObj (snd (base_hook h this account w)) = nextObj w"
  by (cases h) (simp_all add: unpersist_then_behavior_nextObj)

lemma finish_then_base_nextObj:
  "nextObj w \<le> nextObj (snd (finish_then_base l h this account w))"
proof -
  obtain r w1 where f: "finishOAuthSignInFlow l this account w = (r, w1)"
    by (cases "finishOAuthSignInFlow l this account w")
  have "nextObj w \<le> nextObj w1"
    using finishOAuthFlow_nextObj[of w l this account "[''action'' \<mapsto> JStr OAUTH_ACTION_SIGNIN]"] f
    by (simp add: finishOAuthSignInFlow_def)
  then show ?thesis by (cases r) (simp_all add: finish_then_base_def f base_hook_nextObj)
qed

lemma oauth_hook_nextObj: "nextObj w \<le> nextObj (snd (oauth_hook l h this account w))"
  by (cases h)
     (simp_all add: finish_then_base_nextObj unpersist_then_behavior_nextObj
        finishOAuthSignInFlow_def finishOAuthSignUpFlow_def finishOAuthFlow_nextObj)

lemma exec_nextObj: "nextObj w \<le> nextObj (exec l w s)"
proof (cases s)
  case (InvokeHook h this account)
  then show ?thesis
    by (simp add: invoke_hook_def oauth_hook_nextObj base_hook_nextObj
          split: broker_class.splits)
next
  case (Fetch this)
  then show ?thesis
    by (simp add: fetch_def importSearchParamsUsingSchema_def Let_def split: option.splits)
qed (simp_all add: apply_op_nextObj persistVerificationData_nextObj
       unpersistVerificationData_nextObj finishOAuthFlow_nextObj initialize_def new_model_def
       Let_def)

lemma fetch_registries:
  "priv_behaviors (brokers (snd (fetch this w)) b) = priv_behaviors (brokers w b)"
  "priv_capabilities (brokers (snd (fetch this w)) b) = priv_capabilities (brokers w b)"
  by (simp_all add: fetch_def importSearchParamsUsingSchema_def Let_def split: option.splits)

lemma exec_keeps_registries:
  assumes "b < nextBroker w"
  shows "priv_behaviors (brokers (exec l w s) b) = priv_behaviors (brokers w b)
         \<and> priv_capabilities (brokers (exec l w s) b) = priv_capabilities (brokers w b)
         \<and> b < nextBroker (exec l w s)"
proof (cases "s = Fetch b")
  case True
  then show ?thesis using assms by (simp add: fetch_registries fetch_other)
next
  case False
  then show ?thesis using exec_keeps_broker[OF assms False, of l] by simp
qed

lemma run_keeps_registries:
  "b < nextBroker w \<Longrightarrow>
   priv_behaviors (brokers (run l steps w) b) = priv_behaviors (brokers w b)
   \<and> priv_capabilities (brokers (run l steps w) b) = priv_capabilities (brokers w b)
   \<and> b < nextBroker (run l steps w)
   \<and> nextObj w \<le> nextObj (run l steps w)"
proof (induction steps arbitrary: w)
  case Nil
  then show ?case by (simp add: run_def)
next
  case (Cons s steps)
  note k = exec_keeps_registries[OF Cons.prems, of l s]
  have unfold: "run l (s # steps) w = run l steps (exec l w s)" by (simp add: run_def)
  have "nextObj w \<le> nextObj (exec l w s)" by (rule exec_nextObj)
  then show ?case using Cons.IH[of "exec l w s"] k unfold by simp
qed

text \<open>
  Claim C10. Take any two brokers, of any classes, constructed at any two points of a
  run of the system: the first, then any steps, then the second, then any steps again.
  They are different instances, and in the store reached no sequence of
  \<^verbatim>\<open>setBehavior\<close>, \<^verbatim>\<open>setCapability\<close> and \<^verbatim>\<open>unsetCapability\<close> calls on one of
  them changes what \<^verbatim>\<open>getBehavior\<close>, \<^verbatim>\<open>getCapability\<close> or \<^verbatim>\<open>hasCapability\<close>
  answer on the other: each constructor call creates two registries of the instance's
  own, seeded with a copy of the class's defaults.
\<close>

theorem registries_isolated:
  assumes "initialize c1 o1 w0 = (b1, w1)"
    and "initialize c2 o2 (run l steps1 w1) = (b2, w2)"
    and "w = run l steps2 w2"
  shows "b1 \<noteq> b2
         \<and> getBehavior b2 n (apply_ops b1 ops w) = getBehavior b2 n w
         \<and> getCapability b2 n (apply_ops b1 ops w) = getCapability b2 n w
         \<and> hasCapability b2 n (apply_ops b1 ops w) = hasCapability b2 n w
         \<and> getBehavior b1 n (apply_ops b2 ops w) = getBehavior b1 n w
         \<and> getCapability b1 n (apply_ops b2 ops w) = getCapability b1 n w
         \<and> hasCapability b1 n (apply_ops b2 ops w) = hasCapability b1 n w"
proof -
  note f1 = initialize_facts[OF assms(1)]
  note f2 = initialize_facts[OF assms(2)]
  have b1: "b1 < nextBroker w1" using f1(1,8) by simp
  note k1 = run_keeps_registries[OF b1, of l steps1]
  have ne: "b1 \<noteq> b2" using k1 f2(1) by simp
  have b1': "b1 < nextBroker w2" using k1 f2(8) by simp
  have b2: "b2 < nextBroker w2" using f2(1,8) by simp
  note k1' = run_keeps_registries[OF b1', of l steps2]
  note k2 = run_keeps_registries[OF b2, of l steps2]
  have regs1: "priv_behaviors (brokers w b1) = nextObj w0"
              "priv_capabilities (brokers w b1) = Suc (nextObj w0)"
    using k1' k1 initialize_others(1)[OF assms(2), of b1] ne f1(2,3) assms(3) by simp_all
  have regs2: "priv_behaviors (brokers w b2) = nextObj (run l steps1 w1)"
              "priv_capabilities (brokers w b2) = Suc (nextObj (run l steps1 w1))"
    using k2 f2(2,3) assms(3) by simp_all
  have later: "Suc (Suc (nextObj w0)) \<le> nextObj (run l steps1 w1)"
    using k1 f1(7) by simp
  have o2: "objs (apply_ops b1 ops w) r = objs w r"
    if "r = priv_behaviors (brokers w b2) \<or> r = priv_capabilities (brokers w b2)" for r
    using that regs1 regs2 later by (intro apply_ops_objs_other) auto
  have o1: "objs (apply_ops b2 ops w) r = objs w r"
    if "r = priv_behaviors (brokers w b1) \<or> r = priv_capabilities (brokers w b1)" for r
    using that regs1 regs2 later by (intro apply_ops_objs_other) auto
  show ?thesis using ne o1 o2
    by (simp add: getBehavior_def getCapability_def hasCapability_def Let_def apply_ops_brokers)
qed

theorem registries_isolated_witness:
  "\<not> hasCapability 0 ''signup'' two_brokers_world
   \<and> hasCapability 1 ''signup'' two_brokers_world
   \<and> hasCapability 1 ''signup'' (apply_ops 0 [UnsetCapability ''signup''] two_brokers_world)
   \<and> \<not> hasCapability 0 ''signup''
          (apply_ops 1 [SetCapability ''signup'' (JBool True)] two_brokers_world)
   \<and> getBehavior 0 ''afterSignIn''
          (apply_ops 1 [SetBehavior ''afterSignIn'' JNull] two_brokers_world) =
        Inr (JBehavior NullBehavior)"
proof -
  have here: "\<not> hasCapability 0 ''signup'' two_brokers_world"
    "hasCapability 1 ''signup'' two_brokers_world"
    "getBehavior 0 ''afterSignIn'' two_brokers_world = Inr (JBehavior NullBehavior)"
    by (simp_all add: two_brokers_world_def sample_base_world_def apply_ops_def setCapability_def
          initialize_def new_model_def sample_world_def Let_def hasCapability_def getBehavior_def
          model_has_def model_get_def model_set_def base_defaultCapabilities_def
          base_defaultBehaviors_def)
  have second_created:
    "initialize OAuth sample_options
       (run sample_lib [Registry 0 (SetCapability ''signup'' (JBool False))] sample_base_world) =
     (1, two_brokers_world)"
    using two_brokers_created by (simp add: run_def apply_ops_def)
  have reached: "two_brokers_world = run sample_lib [] two_brokers_world"
    by (simp add: run_def)
  show ?thesis
    using registries_isolated[OF sample_base_created second_created reached,
        of "''signup''" "[UnsetCapability ''signup'']"]
      registries_isolated[OF sample_base_created second_created reached,
        of "''signup''" "[SetCapability ''signup'' (JBool True)]"]
      registries_isolated[OF sample_base_created second_created reached,
        of "''afterSignIn''" "[SetBehavior ''afterSignIn'' JNull]"]
      here
    by simp
qed

end
